theory Spec2Isabelle
  imports Complex_Main "HOL-Library.AList"
begin

section \<open>Values of the Python program\<close>

text \<open>
  The program of \<^verbatim>\<open>construction_company.py\<close> is a small object graph: design plans,
  housing projects, road projects and companies are mutable objects, and a project or a
  company holds references to other objects. An object reference is an index into the
  store of its class (see \<open>heap\<close> below).
\<close>

type_synonym ref = nat

text \<open>
  Python \<^verbatim>\<open>float\<close> arguments (areas, costs, lengths, quantities) are only stored and
  handed back; the program never computes with them or compares them. An argument
  annotated \<^verbatim>\<open>float\<close> is taken to be a \<^verbatim>\<open>float\<close>, and one annotated \<^verbatim>\<open>int\<close> to be an
  \<^verbatim>\<open>int\<close> that is not a \<^verbatim>\<open>bool\<close>.
\<close>

type_synonym pyfloat = real

text \<open>The fields of a \<^verbatim>\<open>datetime\<close> that the program formats.\<close>

record datetime =
  dt_year :: nat
  dt_month :: nat
  dt_day :: nat
  dt_hour :: nat
  dt_minute :: nat
  dt_second :: nat

subsection \<open>String formatting\<close>

definition digit_char :: "nat \<Rightarrow> char" where
  "digit_char d = ''0123456789'' ! (d mod 10)"

text \<open>\<^verbatim>\<open>str(n)\<close> for a natural number and for an integer: decimal, no leading zeros.\<close>

fun str_nat :: "nat \<Rightarrow> string" where
  "str_nat n = (if n < 10 then [digit_char n] else str_nat (n div 10) @ [digit_char n])"

declare str_nat.simps [simp del]

definition str_int :: "int \<Rightarrow> string" where
  "str_int i = (if i < 0 then CHR ''-'' # str_nat (nat (- i)) else str_nat (nat i))"

text \<open>
  Formatting an \<^verbatim>\<open>int\<close> in an f-string converts it to decimal. CPython (3.11, and the
  security releases of 3.7 to 3.10) refuses the conversion with
  \<^verbatim>\<open>ValueError: Exceeds the limit (4300 digits) for integer string conversion\<close> when the
  number has more decimal digits, the sign not counted, than
  \<^verbatim>\<open>sys.get_int_max_str_digits()\<close>, which is 4300 unless the program changes it; the module
  does not.
\<close>

datatype exn = ValueError

definition int_max_str_digits :: nat where
  "int_max_str_digits = 4300"

definition int_str_digits :: "int \<Rightarrow> nat" where
  "int_str_digits i = length (str_nat (nat \<bar>i\<bar>))"

definition format_int :: "int \<Rightarrow> exn + string" where
  "format_int i =
     (if int_max_str_digits < int_str_digits i then Inl ValueError else Inr (str_int i))"

text \<open>How a call of a method that returns a string ends: it returns, or raises.\<close>

datatype outcome = Returned string | Raised exn

text \<open>Zero padding to a width, as \<^verbatim>\<open>%m\<close>, \<^verbatim>\<open>%d\<close>, \<^verbatim>\<open>%H\<close>, \<^verbatim>\<open>%M\<close>, \<^verbatim>\<open>%S\<close> do
  (and \<^verbatim>\<open>%Y\<close> for the four-digit years that \<^verbatim>\<open>datetime.now()\<close> returns).\<close>

definition zero_pad :: "nat \<Rightarrow> nat \<Rightarrow> string" where
  "zero_pad w n = replicate (w - length (str_nat n)) CHR ''0'' @ str_nat n"

text \<open>\<^verbatim>\<open>d.strftime('%Y-%m-%d')\<close>\<close>

definition strftime_date :: "datetime \<Rightarrow> string" where
  "strftime_date d =
     zero_pad 4 (dt_year d) @ ''-'' @ zero_pad 2 (dt_month d) @ ''-'' @ zero_pad 2 (dt_day d)"

text \<open>\<^verbatim>\<open>d.strftime('%Y-%m-%d %H:%M:%S')\<close>\<close>

definition strftime_datetime :: "datetime \<Rightarrow> string" where
  "strftime_datetime d =
     strftime_date d @ '' '' @ zero_pad 2 (dt_hour d) @ '':'' @ zero_pad 2 (dt_minute d)
       @ '':'' @ zero_pad 2 (dt_second d)"

text \<open>\<^verbatim>\<open>s.upper()\<close> on the ASCII letters; the strings of the model are byte strings.\<close>

definition upper_char :: "char \<Rightarrow> char" where
  "upper_char c =
     (let n = (of_char c :: nat) in if 97 \<le> n \<and> n \<le> 122 then char_of (n - 32) else c)"

definition upper :: "string \<Rightarrow> string" where
  "upper s = map upper_char s"

text \<open>\<^verbatim>\<open>s.startswith(p)\<close>\<close>

fun startswith :: "string \<Rightarrow> string \<Rightarrow> bool" where
  "startswith s [] = True"
| "startswith [] (p # ps) = False"
| "startswith (c # s) (p # ps) = (c = p \<and> startswith s ps)"

text \<open>The marker by which a caller tells a failure from a success.\<close>

definition is_error :: "string \<Rightarrow> bool" where
  "is_error msg = startswith msg ''Error:''"

definition quote :: string where
  "quote = [CHR 0x27]"

definition newline :: string where
  "newline = [CHR 0x0A]"

section \<open>The classes\<close>

text \<open>
  \<^verbatim>\<open>specifications\<close> is a \<^verbatim>\<open>dict\<close>: an association list in insertion order, updated with
  \<open>AList.update\<close> (an existing key keeps its place, a new key goes to the end).
\<close>

record DesignPlan =
  plan_id :: string
  plan_type :: string
  description :: string
  area_sqft :: pyfloat
  estimated_cost :: pyfloat
  created_date :: datetime
  approved :: bool
  specifications :: "(string \<times> string) list"

text \<open>
  \<^verbatim>\<open>HousingProject\<close> and \<^verbatim>\<open>RoadProject\<close> share attribute names; the fields of the housing
  record carry the prefix \<open>h_\<close> and those of the road record \<open>r_\<close> where they would clash.
  \<^verbatim>\<open>design_plan\<close> is \<^verbatim>\<open>None\<close> or a reference to a \<^verbatim>\<open>DesignPlan\<close>; \<^verbatim>\<open>status\<close> is a Python
  string.
\<close>

record HousingProject =
  h_project_id :: string
  h_project_name :: string
  housing_type :: string
  num_units :: int
  h_design_plan :: "ref option"
  h_status :: string
  h_start_date :: "datetime option"
  h_completion_date :: "datetime option"
  materials :: "(string \<times> pyfloat \<times> string) list"
  h_workers_assigned :: int

record RoadProject =
  r_project_id :: string
  road_name :: string
  road_type :: string
  length_km :: pyfloat
  r_design_plan :: "ref option"
  r_status :: string
  lanes :: int
  surface_type :: string
  r_start_date :: "datetime option"
  r_completion_date :: "datetime option"
  r_workers_assigned :: int
  equipment :: "(string \<times> int) list"

record ConstructionCompany =
  company_name :: string
  housing_projects :: "ref list"
  road_projects :: "ref list"
  design_plans :: "ref list"
  total_workers :: int
  active_projects :: int

text \<open>
  The store: the objects of each class in order of creation. A reference is the position
  of the object; creating an object appends it, and no object is ever freed.
\<close>

record heap =
  plans :: "DesignPlan list"
  housings :: "HousingProject list"
  roads :: "RoadProject list"
  companies :: "ConstructionCompany list"

definition empty_heap :: heap where
  "empty_heap = \<lparr>plans = [], housings = [], roads = [], companies = []\<rparr>"

text \<open>
  Every method below takes the store and returns its result with the new store. The
  result is \<open>None\<close> when a reference names no object of the store: no such call exists in
  Python, where a reference always points to a live object. Every \<^verbatim>\<open>return\<close> of the source,
  error strings included, is \<open>Some\<close>, and so is the one exception that a call with
  arguments of the annotated types can raise: the \<^verbatim>\<open>ValueError\<close> of
  \<^verbatim>\<open>start_construction\<close>, whose result is an \<open>outcome\<close> with the store as the call left
  it. \<open>now\<close> is the value that the call's \<^verbatim>\<open>datetime.now()\<close> reads.
\<close>

subsection \<open>DesignPlan\<close>

definition DesignPlan_init ::
  "datetime \<Rightarrow> string \<Rightarrow> string \<Rightarrow> string \<Rightarrow> pyfloat \<Rightarrow> pyfloat \<Rightarrow> heap \<Rightarrow> ref \<times> heap" where
  "DesignPlan_init now pid ptype descr area cost h =
     (length (plans h),
      h\<lparr>plans := plans h @
         [\<lparr>plan_id = pid, plan_type = ptype, description = descr, area_sqft = area,
           estimated_cost = cost, created_date = now, approved = False,
           specifications = []\<rparr>]\<rparr>)"

definition add_specification :: "ref \<Rightarrow> string \<Rightarrow> string \<Rightarrow> heap \<Rightarrow> heap option" where
  "add_specification self key val h =
     (if self < length (plans h) then
        let this = plans h ! self in
        Some (h\<lparr>plans := (plans h)
                [self := this\<lparr>specifications := AList.update key val (specifications this)\<rparr>]\<rparr>)
      else None)"

definition approve_plan :: "datetime \<Rightarrow> ref \<Rightarrow> heap \<Rightarrow> (string \<times> heap) option" where
  "approve_plan now self h =
     (if self < length (plans h) then
        let this = plans h ! self in
        Some (''Plan '' @ plan_id this @ '' approved on '' @ strftime_date now,
              h\<lparr>plans := (plans h)[self := this\<lparr>approved := True\<rparr>]\<rparr>)
      else None)"

text \<open>
  The \<^verbatim>\<open>dict\<close> that \<^verbatim>\<open>get_details\<close> returns, its keys as fields. In Python the entry
  \<^verbatim>\<open>'specifications'\<close> is the plan's own \<^verbatim>\<open>dict\<close>; the record holds its content at the time
  of the call.
\<close>

record plan_details =
  pd_plan_id :: string
  pd_type :: string
  pd_description :: string
  pd_area_sqft :: pyfloat
  pd_estimated_cost :: pyfloat
  pd_approved :: bool
  pd_specifications :: "(string \<times> string) list"
  pd_created_date :: string

definition get_details :: "ref \<Rightarrow> heap \<Rightarrow> plan_details option" where
  "get_details self h =
     (if self < length (plans h) then
        let this = plans h ! self in
        Some \<lparr>pd_plan_id = plan_id this, pd_type = plan_type this,
              pd_description = description this, pd_area_sqft = area_sqft this,
              pd_estimated_cost = estimated_cost this, pd_approved = approved this,
              pd_specifications = specifications this,
              pd_created_date = strftime_date (created_date this)\<rparr>
      else None)"

subsection \<open>HousingProject\<close>

definition HousingProject_init ::
  "string \<Rightarrow> string \<Rightarrow> string \<Rightarrow> int \<Rightarrow> heap \<Rightarrow> ref \<times> heap" where
  "HousingProject_init pid pname htype units h =
     (length (housings h),
      h\<lparr>housings := housings h @
         [\<lparr>h_project_id = pid, h_project_name = pname, housing_type = htype,
           num_units = units, h_design_plan = None, h_status = ''planned'',
           h_start_date = None, h_completion_date = None, materials = [],
           h_workers_assigned = 0\<rparr>]\<rparr>)"

definition HousingProject_assign_design_plan ::
  "ref \<Rightarrow> ref \<Rightarrow> heap \<Rightarrow> (string \<times> heap) option" where
  "HousingProject_assign_design_plan self design_plan h =
     (if self < length (housings h) \<and> design_plan < length (plans h) then
        let this = housings h ! self; p = plans h ! design_plan in
        if \<not> approved p then
          Some (''Error: Design plan must be approved first'', h)
        else if plan_type p \<noteq> ''housing'' then
          Some (''Error: Design plan type '' @ quote @ plan_type p @ quote
                  @ '' is not compatible with housing projects'', h)
        else
          Some (''Design plan '' @ plan_id p @ '' assigned to '' @ h_project_name this,
                h\<lparr>housings := (housings h)[self := this\<lparr>h_design_plan := Some design_plan\<rparr>]\<rparr>)
      else None)"

text \<open>
  \<^verbatim>\<open>self.design_plan and self.design_plan.approved\<close>: a \<^verbatim>\<open>DesignPlan\<close> object is truthy
  (the class defines neither \<^verbatim>\<open>__bool__\<close> nor \<^verbatim>\<open>__len__\<close>), \<^verbatim>\<open>None\<close> is falsy.
  In the first branch the three assignments come first and the f-string of the
  \<^verbatim>\<open>return\<close>, which formats \<^verbatim>\<open>workers\<close>, after them: when the formatting raises, the
  three fields are already written.
\<close>

definition HousingProject_start_construction ::
  "datetime \<Rightarrow> ref \<Rightarrow> int \<Rightarrow> heap \<Rightarrow> (outcome \<times> heap) option" where
  "HousingProject_start_construction now self workers h =
     (if self < length (housings h) then
        let this = housings h ! self in
        (case h_design_plan this of
           None \<Rightarrow>
             Some (Returned ''Error: Approved design plan required to start construction'', h)
         | Some d \<Rightarrow>
             if d < length (plans h) then
               if approved (plans h ! d) then
                 let h1 = h\<lparr>housings := (housings h)
                            [self := this\<lparr>h_status := ''in_progress'', h_start_date := Some now,
                                          h_workers_assigned := workers\<rparr>]\<rparr> in
                 (case format_int workers of
                    Inl e \<Rightarrow> Some (Raised e, h1)
                  | Inr w \<Rightarrow>
                      Some (Returned (''Construction started for '' @ h_project_name this
                                        @ '' with '' @ w @ '' workers''), h1))
               else
                 Some (Returned ''Error: Approved design plan required to start construction'', h)
             else None)
      else None)"

definition add_materials ::
  "ref \<Rightarrow> string \<Rightarrow> pyfloat \<Rightarrow> string \<Rightarrow> heap \<Rightarrow> heap option" where
  "add_materials self material quantity unit h =
     (if self < length (housings h) then
        let this = housings h ! self in
        Some (h\<lparr>housings := (housings h)
                [self := this\<lparr>materials := materials this @ [(material, quantity, unit)]\<rparr>]\<rparr>)
      else None)"

definition HousingProject_complete_project ::
  "datetime \<Rightarrow> ref \<Rightarrow> heap \<Rightarrow> (string \<times> heap) option" where
  "HousingProject_complete_project now self h =
     (if self < length (housings h) then
        let this = housings h ! self in
        Some (''Housing project '' @ h_project_name this @ '' completed on ''
                @ strftime_date now,
              h\<lparr>housings := (housings h)
                 [self := this\<lparr>h_status := ''completed'', h_completion_date := Some now\<rparr>]\<rparr>)
      else None)"

record housing_info =
  hi_project_id :: string
  hi_name :: string
  hi_type :: string
  hi_units :: int
  hi_status :: string
  hi_workers :: int
  hi_materials_count :: int
  hi_has_design_plan :: bool

definition HousingProject_get_project_info :: "ref \<Rightarrow> heap \<Rightarrow> housing_info option" where
  "HousingProject_get_project_info self h =
     (if self < length (housings h) then
        let this = housings h ! self in
        Some \<lparr>hi_project_id = h_project_id this, hi_name = h_project_name this,
              hi_type = housing_type this, hi_units = num_units this,
              hi_status = h_status this, hi_workers = h_workers_assigned this,
              hi_materials_count = int (length (materials this)),
              hi_has_design_plan = (h_design_plan this \<noteq> None)\<rparr>
      else None)"

subsection \<open>RoadProject\<close>

definition RoadProject_init ::
  "string \<Rightarrow> string \<Rightarrow> string \<Rightarrow> pyfloat \<Rightarrow> heap \<Rightarrow> ref \<times> heap" where
  "RoadProject_init pid rname rtype len h =
     (length (roads h),
      h\<lparr>roads := roads h @
         [\<lparr>r_project_id = pid, road_name = rname, road_type = rtype, length_km = len,
           r_design_plan = None, r_status = ''planned'', lanes = 2,
           surface_type = ''asphalt'', r_start_date = None, r_completion_date = None,
           r_workers_assigned = 0, equipment = []\<rparr>]\<rparr>)"

definition RoadProject_assign_design_plan ::
  "ref \<Rightarrow> ref \<Rightarrow> heap \<Rightarrow> (string \<times> heap) option" where
  "RoadProject_assign_design_plan self design_plan h =
     (if self < length (roads h) \<and> design_plan < length (plans h) then
        let this = roads h ! self; p = plans h ! design_plan in
        if \<not> approved p then
          Some (''Error: Design plan must be approved first'', h)
        else if plan_type p \<noteq> ''road'' then
          Some (''Error: Design plan type '' @ quote @ plan_type p @ quote
                  @ '' is not compatible with road projects'', h)
        else
          Some (''Design plan '' @ plan_id p @ '' assigned to '' @ road_name this,
                h\<lparr>roads := (roads h)[self := this\<lparr>r_design_plan := Some design_plan\<rparr>]\<rparr>)
      else None)"

definition set_road_specs :: "ref \<Rightarrow> int \<Rightarrow> string \<Rightarrow> heap \<Rightarrow> heap option" where
  "set_road_specs self n surface h =
     (if self < length (roads h) then
        let this = roads h ! self in
        Some (h\<lparr>roads := (roads h)[self := this\<lparr>lanes := n, surface_type := surface\<rparr>]\<rparr>)
      else None)"

definition RoadProject_start_construction ::
  "datetime \<Rightarrow> ref \<Rightarrow> int \<Rightarrow> heap \<Rightarrow> (outcome \<times> heap) option" where
  "RoadProject_start_construction now self workers h =
     (if self < length (roads h) then
        let this = roads h ! self in
        (case r_design_plan this of
           None \<Rightarrow>
             Some (Returned ''Error: Approved design plan required to start construction'', h)
         | Some d \<Rightarrow>
             if d < length (plans h) then
               if approved (plans h ! d) then
                 let h1 = h\<lparr>roads := (roads h)
                            [self := this\<lparr>r_status := ''in_progress'', r_start_date := Some now,
                                          r_workers_assigned := workers\<rparr>]\<rparr> in
                 (case format_int workers of
                    Inl e \<Rightarrow> Some (Raised e, h1)
                  | Inr w \<Rightarrow>
                      Some (Returned (''Road construction started for '' @ road_name this
                                        @ '' with '' @ w @ '' workers''), h1))
               else
                 Some (Returned ''Error: Approved design plan required to start construction'', h)
             else None)
      else None)"

definition add_equipment :: "ref \<Rightarrow> string \<Rightarrow> int \<Rightarrow> heap \<Rightarrow> heap option" where
  "add_equipment self equipment_name quantity h =
     (if self < length (roads h) then
        let this = roads h ! self in
        Some (h\<lparr>roads := (roads h)
                [self := this\<lparr>equipment := equipment this @ [(equipment_name, quantity)]\<rparr>]\<rparr>)
      else None)"

definition schedule_maintenance :: "ref \<Rightarrow> heap \<Rightarrow> (string \<times> heap) option" where
  "schedule_maintenance self h =
     (if self < length (roads h) then
        let this = roads h ! self in
        if r_status this = ''completed'' then
          Some (''Maintenance scheduled for '' @ road_name this,
                h\<lparr>roads := (roads h)[self := this\<lparr>r_status := ''maintenance''\<rparr>]\<rparr>)
        else Some (''Error: Road must be completed before scheduling maintenance'', h)
      else None)"

definition RoadProject_complete_project ::
  "datetime \<Rightarrow> ref \<Rightarrow> heap \<Rightarrow> (string \<times> heap) option" where
  "RoadProject_complete_project now self h =
     (if self < length (roads h) then
        let this = roads h ! self in
        Some (''Road project '' @ road_name this @ '' completed on '' @ strftime_date now,
              h\<lparr>roads := (roads h)
                 [self := this\<lparr>r_status := ''completed'', r_completion_date := Some now\<rparr>]\<rparr>)
      else None)"

record road_info =
  ri_project_id :: string
  ri_name :: string
  ri_type :: string
  ri_length_km :: pyfloat
  ri_lanes :: int
  ri_surface :: string
  ri_status :: string
  ri_workers :: int
  ri_equipment_count :: int
  ri_has_design_plan :: bool

definition RoadProject_get_project_info :: "ref \<Rightarrow> heap \<Rightarrow> road_info option" where
  "RoadProject_get_project_info self h =
     (if self < length (roads h) then
        let this = roads h ! self in
        Some \<lparr>ri_project_id = r_project_id this, ri_name = road_name this,
              ri_type = road_type this, ri_length_km = length_km this,
              ri_lanes = lanes this, ri_surface = surface_type this,
              ri_status = r_status this, ri_workers = r_workers_assigned this,
              ri_equipment_count = int (length (equipment this)),
              ri_has_design_plan = (r_design_plan this \<noteq> None)\<rparr>
      else None)"

subsection \<open>ConstructionCompany\<close>

definition ConstructionCompany_init :: "string \<Rightarrow> heap \<Rightarrow> ref \<times> heap" where
  "ConstructionCompany_init cname h =
     (length (companies h),
      h\<lparr>companies := companies h @
         [\<lparr>company_name = cname, housing_projects = [], road_projects = [],
           design_plans = [], total_workers = 0, active_projects = 0\<rparr>]\<rparr>)"

definition create_design_plan ::
  "datetime \<Rightarrow> ref \<Rightarrow> string \<Rightarrow> string \<Rightarrow> string \<Rightarrow> pyfloat \<Rightarrow> pyfloat \<Rightarrow> heap
     \<Rightarrow> (ref \<times> heap) option" where
  "create_design_plan now self pid ptype descr area cost h =
     (if self < length (companies h) then
        let (plan, h1) = DesignPlan_init now pid ptype descr area cost h;
            this = companies h1 ! self in
        Some (plan,
              h1\<lparr>companies := (companies h1)
                  [self := this\<lparr>design_plans := design_plans this @ [plan]\<rparr>]\<rparr>)
      else None)"

definition create_housing_project ::
  "ref \<Rightarrow> string \<Rightarrow> string \<Rightarrow> string \<Rightarrow> int \<Rightarrow> heap \<Rightarrow> (ref \<times> heap) option" where
  "create_housing_project self pid pname htype units h =
     (if self < length (companies h) then
        let (project, h1) = HousingProject_init pid pname htype units h;
            this = companies h1 ! self in
        Some (project,
              h1\<lparr>companies := (companies h1)
                  [self := this\<lparr>housing_projects := housing_projects this @ [project]\<rparr>]\<rparr>)
      else None)"

definition create_road_project ::
  "ref \<Rightarrow> string \<Rightarrow> string \<Rightarrow> string \<Rightarrow> pyfloat \<Rightarrow> heap \<Rightarrow> (ref \<times> heap) option" where
  "create_road_project self pid rname rtype len h =
     (if self < length (companies h) then
        let (project, h1) = RoadProject_init pid rname rtype len h;
            this = companies h1 ! self in
        Some (project,
              h1\<lparr>companies := (companies h1)
                  [self := this\<lparr>road_projects := road_projects this @ [project]\<rparr>]\<rparr>)
      else None)"

text \<open>The \<^verbatim>\<open>dict\<close> that \<^verbatim>\<open>get_all_projects\<close> returns.\<close>

record summary =
  s_company_name :: string
  total_housing_projects :: int
  total_road_projects :: int
  total_design_plans :: int
  active_housing_projects :: int
  active_road_projects :: int
  total_active_projects :: int

text \<open>A stored reference is read through \<open>lookup\<close>; a list of them through \<open>lookup_all\<close>,
  which is \<open>None\<close> as soon as one of them names no object.\<close>

definition lookup :: "'a list \<Rightarrow> ref \<Rightarrow> 'a option" where
  "lookup xs r = (if r < length xs then Some (xs ! r) else None)"

fun lookup_all :: "'a list \<Rightarrow> ref list \<Rightarrow> 'a list option" where
  "lookup_all xs [] = Some []"
| "lookup_all xs (r # rs) =
     (case lookup xs r of
        None \<Rightarrow> None
      | Some x \<Rightarrow> (case lookup_all xs rs of None \<Rightarrow> None | Some ys \<Rightarrow> Some (x # ys)))"

text \<open>\<^verbatim>\<open>sum(1 for p in ps if p.status == 'in_progress')\<close>: the generator yields a \<open>1\<close> for each
  project that passes the test, and \<^verbatim>\<open>sum\<close> adds them up from \<open>0\<close>.\<close>

definition in_progress_count :: "('a \<Rightarrow> string) \<Rightarrow> 'a list \<Rightarrow> int" where
  "in_progress_count status ps = sum_list [1. p \<leftarrow> ps, status p = ''in_progress'']"

definition get_all_projects :: "ref \<Rightarrow> heap \<Rightarrow> summary option" where
  "get_all_projects self h =
     (case lookup (companies h) self of
        None \<Rightarrow> None
      | Some this \<Rightarrow>
          (case (lookup_all (housings h) (housing_projects this),
                 lookup_all (roads h) (road_projects this)) of
             (Some hs, Some rs) \<Rightarrow>
               let in_progress_housing = in_progress_count h_status hs;
                   in_progress_roads = in_progress_count r_status rs in
               Some \<lparr>s_company_name = company_name this,
                     total_housing_projects = int (length (housing_projects this)),
                     total_road_projects = int (length (road_projects this)),
                     total_design_plans = int (length (design_plans this)),
                     active_housing_projects = in_progress_housing,
                     active_road_projects = in_progress_roads,
                     total_active_projects = in_progress_housing + in_progress_roads\<rparr>
           | _ \<Rightarrow> None))"

text \<open>The three listings: the snapshot of every object of the collection, in its order.\<close>

fun collect :: "(ref \<Rightarrow> heap \<Rightarrow> 'a option) \<Rightarrow> ref list \<Rightarrow> heap \<Rightarrow> 'a list option" where
  "collect f [] h = Some []"
| "collect f (r # rs) h =
     (case f r h of
        None \<Rightarrow> None
      | Some x \<Rightarrow> (case collect f rs h of None \<Rightarrow> None | Some ys \<Rightarrow> Some (x # ys)))"

definition list_housing_projects :: "ref \<Rightarrow> heap \<Rightarrow> housing_info list option" where
  "list_housing_projects self h =
     (case lookup (companies h) self of
        None \<Rightarrow> None
      | Some this \<Rightarrow> collect HousingProject_get_project_info (housing_projects this) h)"

definition list_road_projects :: "ref \<Rightarrow> heap \<Rightarrow> road_info list option" where
  "list_road_projects self h =
     (case lookup (companies h) self of
        None \<Rightarrow> None
      | Some this \<Rightarrow> collect RoadProject_get_project_info (road_projects this) h)"

definition list_design_plans :: "ref \<Rightarrow> heap \<Rightarrow> plan_details list option" where
  "list_design_plans self h =
     (case lookup (companies h) self of
        None \<Rightarrow> None
      | Some this \<Rightarrow> collect get_details (design_plans this) h)"

text \<open>
  \<^verbatim>\<open>generate_report\<close>: the f-string of the header and the summary, one line per housing
  project, the road header, one line per road project, the footer. Each \<^verbatim>\<open>for\<close> statement appends to
  \<^verbatim>\<open>report\<close>. \<open>str_float\<close> is Python's formatting of a \<^verbatim>\<open>float\<close> inside an f-string.
  The integers of the summary are lengths of Python lists and sums of two of them: they
  have at most 20 digits, far below the limit of the conversion, so they are formatted
  with \<open>str_int\<close>.
\<close>

definition banner :: string where
  "banner = replicate 60 CHR ''=''"

definition housing_line :: "housing_info \<Rightarrow> string" where
  "housing_line info =
     ''  - '' @ hi_name info @ '' ('' @ hi_type info @ ''): '' @ hi_status info @ newline"

definition road_line :: "(pyfloat \<Rightarrow> string) \<Rightarrow> road_info \<Rightarrow> string" where
  "road_line str_float info =
     ''  - '' @ ri_name info @ '' ('' @ ri_type info @ '', '' @ str_float (ri_length_km info)
       @ ''km): '' @ ri_status info @ newline"

definition report_header :: "string \<Rightarrow> summary \<Rightarrow> string" where
  "report_header cname s =
     newline @ banner @ newline
     @ upper cname @ '' - CONSTRUCTION COMPANY REPORT'' @ newline
     @ banner @ newline
     @ newline
     @ ''SUMMARY:'' @ newline
     @ ''--------'' @ newline
     @ ''Total Housing Projects: '' @ str_int (total_housing_projects s) @ newline
     @ ''Total Road Projects: '' @ str_int (total_road_projects s) @ newline
     @ ''Total Design Plans: '' @ str_int (total_design_plans s) @ newline
     @ ''Active Projects: '' @ str_int (total_active_projects s) @ newline
     @ newline
     @ ''HOUSING PROJECTS:'' @ newline
     @ ''----------------'' @ newline"

definition report_roads_header :: string where
  "report_roads_header =
     newline @ ''ROAD PROJECTS:'' @ newline @ ''-------------'' @ newline"

definition report_footer :: "datetime \<Rightarrow> string" where
  "report_footer now =
     newline @ banner @ newline
     @ ''Generated on: '' @ strftime_datetime now @ newline
     @ banner @ newline"

definition generate_report ::
  "(pyfloat \<Rightarrow> string) \<Rightarrow> datetime \<Rightarrow> ref \<Rightarrow> heap \<Rightarrow> string option" where
  "generate_report str_float now self h =
     (case lookup (companies h) self of
        None \<Rightarrow> None
      | Some this \<Rightarrow>
          (case (get_all_projects self h,
                 collect HousingProject_get_project_info (housing_projects this) h,
                 collect RoadProject_get_project_info (road_projects this) h) of
             (Some s, Some hinfos, Some rinfos) \<Rightarrow>
               let report = report_header (company_name this) s;
                   report = foldl (\<lambda>report info. report @ housing_line info) report hinfos;
                   report = report @ report_roads_header;
                   report = foldl (\<lambda>report info. report @ road_line str_float info) report rinfos;
                   report = report @ report_footer now
               in Some report
           | _ \<Rightarrow> None))"

section \<open>Sequences of calls\<close>

text \<open>
  A caller of the module constructs objects and calls their methods, one call after the
  other; there is no other way in which the fields of an object change. \<open>call\<close> names every
  constructor and method of the four classes with its arguments, the receiver first.
\<close>

datatype call =
    New_DesignPlan string string string pyfloat pyfloat
  | Add_specification ref string string
  | Approve_plan ref
  | Get_details ref
  | New_HousingProject string string string int
  | Housing_assign_design_plan ref ref
  | Housing_start_construction ref int
  | Add_materials ref string pyfloat string
  | Housing_complete_project ref
  | Housing_get_project_info ref
  | New_RoadProject string string string pyfloat
  | Road_assign_design_plan ref ref
  | Set_road_specs ref int string
  | Road_start_construction ref int
  | Add_equipment ref string int
  | Schedule_maintenance ref
  | Road_complete_project ref
  | Road_get_project_info ref
  | New_ConstructionCompany string
  | Create_design_plan ref string string string pyfloat pyfloat
  | Create_housing_project ref string string string int
  | Create_road_project ref string string string pyfloat
  | Get_all_projects ref
  | List_housing_projects ref
  | List_road_projects ref
  | List_design_plans ref
  | Generate_report ref

datatype result =
    Nothing
  | Message string
  | PlanRef ref
  | HousingRef ref
  | RoadRef ref
  | CompanyRef ref
  | Details plan_details
  | HousingInfo housing_info
  | RoadInfo road_info
  | Summary summary
  | DetailsList "plan_details list"
  | HousingInfoList "housing_info list"
  | RoadInfoList "road_info list"
  | Raise exn

definition returning :: "('a \<Rightarrow> result) \<Rightarrow> ('a \<times> heap) option \<Rightarrow> (result \<times> heap) option" where
  "returning tag r = map_option (\<lambda>(x, h'). (tag x, h')) r"

definition mutating :: "heap option \<Rightarrow> (result \<times> heap) option" where
  "mutating r = map_option (\<lambda>h'. (Nothing, h')) r"

definition reading :: "('a \<Rightarrow> result) \<Rightarrow> heap \<Rightarrow> 'a option \<Rightarrow> (result \<times> heap) option" where
  "reading tag h r = map_option (\<lambda>x. (tag x, h)) r"

definition ending :: "outcome \<Rightarrow> result" where
  "ending out = (case out of Returned msg \<Rightarrow> Message msg | Raised e \<Rightarrow> Raise e)"

fun exec :: "(pyfloat \<Rightarrow> string) \<Rightarrow> datetime \<Rightarrow> call \<Rightarrow> heap \<Rightarrow> (result \<times> heap) option" where
  "exec sf now (New_DesignPlan pid ptype descr area cost) h =
     returning PlanRef (Some (DesignPlan_init now pid ptype descr area cost h))"
| "exec sf now (Add_specification p key val) h = mutating (add_specification p key val h)"
| "exec sf now (Approve_plan p) h = returning Message (approve_plan now p h)"
| "exec sf now (Get_details p) h = reading Details h (get_details p h)"
| "exec sf now (New_HousingProject pid pname htype units) h =
     returning HousingRef (Some (HousingProject_init pid pname htype units h))"
| "exec sf now (Housing_assign_design_plan pr p) h =
     returning Message (HousingProject_assign_design_plan pr p h)"
| "exec sf now (Housing_start_construction pr workers) h =
     returning ending (HousingProject_start_construction now pr workers h)"
| "exec sf now (Add_materials pr material quantity unit) h =
     mutating (add_materials pr material quantity unit h)"
| "exec sf now (Housing_complete_project pr) h =
     returning Message (HousingProject_complete_project now pr h)"
| "exec sf now (Housing_get_project_info pr) h =
     reading HousingInfo h (HousingProject_get_project_info pr h)"
| "exec sf now (New_RoadProject pid rname rtype len) h =
     returning RoadRef (Some (RoadProject_init pid rname rtype len h))"
| "exec sf now (Road_assign_design_plan pr p) h =
     returning Message (RoadProject_assign_design_plan pr p h)"
| "exec sf now (Set_road_specs pr n surface) h = mutating (set_road_specs pr n surface h)"
| "exec sf now (Road_start_construction pr workers) h =
     returning ending (RoadProject_start_construction now pr workers h)"
| "exec sf now (Add_equipment pr equipment_name quantity) h =
     mutating (add_equipment pr equipment_name quantity h)"
| "exec sf now (Schedule_maintenance pr) h = returning Message (schedule_maintenance pr h)"
| "exec sf now (Road_complete_project pr) h =
     returning Message (RoadProject_complete_project now pr h)"
| "exec sf now (Road_get_project_info pr) h =
     reading RoadInfo h (RoadProject_get_project_info pr h)"
| "exec sf now (New_ConstructionCompany cname) h =
     returning CompanyRef (Some (ConstructionCompany_init cname h))"
| "exec sf now (Create_design_plan c pid ptype descr area cost) h =
     returning PlanRef (create_design_plan now c pid ptype descr area cost h)"
| "exec sf now (Create_housing_project c pid pname htype units) h =
     returning HousingRef (create_housing_project c pid pname htype units h)"
| "exec sf now (Create_road_project c pid rname rtype len) h =
     returning RoadRef (create_road_project c pid rname rtype len h)"
| "exec sf now (Get_all_projects c) h = reading Summary h (get_all_projects c h)"
| "exec sf now (List_housing_projects c) h =
     reading HousingInfoList h (list_housing_projects c h)"
| "exec sf now (List_road_projects c) h = reading RoadInfoList h (list_road_projects c h)"
| "exec sf now (List_design_plans c) h = reading DetailsList h (list_design_plans c h)"
| "exec sf now (Generate_report c) h = reading Message h (generate_report sf now c h)"

text \<open>
  A run: the calls in order from a store, each with the clock reading of its
  \<^verbatim>\<open>datetime.now()\<close>, giving the results of the calls and the final store. After a call
  that raises, the run goes on from the store that the call left, as a caller that catches
  the exception does; a caller that does not catch it stops there, in a store that is the
  end of a shorter run. The reachable stores are those in which a run from \<open>empty_heap\<close>
  ends.
\<close>

fun run ::
  "(pyfloat \<Rightarrow> string) \<Rightarrow> (datetime \<times> call) list \<Rightarrow> heap \<Rightarrow> (result list \<times> heap) option" where
  "run sf [] h = Some ([], h)"
| "run sf ((now, c) # cs) h =
     (case exec sf now c h of
        None \<Rightarrow> None
      | Some (x, h1) \<Rightarrow>
          (case run sf cs h1 of None \<Rightarrow> None | Some (xs, h2) \<Rightarrow> Some (x # xs, h2)))"

section \<open>Properties of stores and runs\<close>

text \<open>
  A project's \<^verbatim>\<open>design_plan\<close> is in order for a kind when it is \<^verbatim>\<open>None\<close>, or refers to a plan
  of the store that is approved and whose \<^verbatim>\<open>plan_type\<close> is the kind.
\<close>

definition plan_ok :: "string \<Rightarrow> heap \<Rightarrow> ref option \<Rightarrow> bool" where
  "plan_ok kind h d =
     (case d of
        None \<Rightarrow> True
      | Some p \<Rightarrow> p < length (plans h) \<and> approved (plans h ! p) \<and> plan_type (plans h ! p) = kind)"

definition design_plans_valid :: "heap \<Rightarrow> bool" where
  "design_plans_valid h =
     ((\<forall>pr \<in> set (housings h). plan_ok ''housing'' h (h_design_plan pr))
      \<and> (\<forall>pr \<in> set (roads h). plan_ok ''road'' h (r_design_plan pr)))"

text \<open>
  A company's collections are in order when they hold references to objects of the store,
  each at most once.
\<close>

definition company_ok :: "heap \<Rightarrow> ConstructionCompany \<Rightarrow> bool" where
  "company_ok h c =
     ((\<forall>r \<in> set (housing_projects c). r < length (housings h))
      \<and> (\<forall>r \<in> set (road_projects c). r < length (roads h))
      \<and> (\<forall>r \<in> set (design_plans c). r < length (plans h))
      \<and> distinct (housing_projects c) \<and> distinct (road_projects c)
      \<and> distinct (design_plans c))"

definition registry_ok :: "heap \<Rightarrow> bool" where
  "registry_ok h = (\<forall>c \<in> set (companies h). company_ok h c)"

text \<open>
  The plan that one call with its result has created through \<^verbatim>\<open>create_design_plan\<close> of
  the company \<open>c\<close>, if it is such a call, and the plans so created during a run, in order.
\<close>

definition plan_created_by :: "ref \<Rightarrow> (datetime \<times> call) \<times> result \<Rightarrow> ref option" where
  "plan_created_by c e =
     (case e of
        ((now, Create_design_plan c' pid ptype descr area cost), PlanRef p) \<Rightarrow>
          if c' = c then Some p else None
      | _ \<Rightarrow> None)"

definition created_plans :: "ref \<Rightarrow> (datetime \<times> call) list \<Rightarrow> result list \<Rightarrow> ref list" where
  "created_plans c cs xs = List.map_filter (plan_created_by c) (zip cs xs)"

text \<open>
  The store in which the fields \<^verbatim>\<open>total_workers\<close> and \<^verbatim>\<open>active_projects\<close> of the company
  \<open>c\<close> hold the values \<open>tw\<close> and \<open>ap\<close>, and everything else is as in \<open>h\<close>.
\<close>

definition with_counters :: "ref \<Rightarrow> int \<Rightarrow> int \<Rightarrow> heap \<Rightarrow> heap" where
  "with_counters c tw ap h =
     h\<lparr>companies := (companies h)
        [c := (companies h ! c)\<lparr>total_workers := tw, active_projects := ap\<rparr>]\<rparr>"

section \<open>A store for examples\<close>

definition t0 :: datetime where
  "t0 = \<lparr>dt_year = 2024, dt_month = 3, dt_day = 9, dt_hour = 14, dt_minute = 5, dt_second = 0\<rparr>"

definition site :: heap where
  "site =
     \<lparr>plans =
        [\<lparr>plan_id = ''DP001'', plan_type = ''housing'', description = ''Residential Complex Blueprint'',
          area_sqft = 5000, estimated_cost = 250000, created_date = t0, approved = True,
          specifications = [(''bedrooms'', ''3'')]\<rparr>,
         \<lparr>plan_id = ''DP002'', plan_type = ''road'', description = ''Main Highway Design'',
          area_sqft = 100000, estimated_cost = 1500000, created_date = t0, approved = True,
          specifications = []\<rparr>,
         \<lparr>plan_id = ''DP003'', plan_type = ''commercial'', description = ''Mall'',
          area_sqft = 1, estimated_cost = 2, created_date = t0, approved = False,
          specifications = []\<rparr>],
      housings =
        [\<lparr>h_project_id = ''HP001'', h_project_name = ''Greenview Apartments'',
          housing_type = ''apartment'', num_units = 24, h_design_plan = Some 0,
          h_status = ''planned'', h_start_date = None, h_completion_date = None,
          materials = [], h_workers_assigned = 0\<rparr>],
      roads =
        [\<lparr>r_project_id = ''RD001'', road_name = ''Central Highway'', road_type = ''highway'',
          length_km = 31 / 2, r_design_plan = None, r_status = ''completed'', lanes = 2,
          surface_type = ''asphalt'', r_start_date = None, r_completion_date = Some t0,
          r_workers_assigned = 0, equipment = []\<rparr>],
      companies =
        [\<lparr>company_name = ''Premier Construction Ltd.'', housing_projects = [0],
          road_projects = [0], design_plans = [0, 1, 2], total_workers = 0,
          active_projects = 0\<rparr>]\<rparr>"



text \<open>
  The calls of the module's \<^verbatim>\<open>main()\<close> in order, with the results and the store they
  end in, and a formatting of the one \<^verbatim>\<open>float\<close> that the report of \<^verbatim>\<open>main()\<close> prints.
\<close>

definition str_float0 :: "pyfloat \<Rightarrow> string" where
  "str_float0 x = (if x = 31 / 2 then ''15.5'' else ''?'')"

definition main_calls :: "(datetime \<times> call) list" where
  "main_calls =
     [(t0, New_ConstructionCompany ''Premier Construction Ltd.''),
      (t0, Create_design_plan 0 ''DP001'' ''housing'' ''Residential Complex Blueprint'' 5000 250000),
      (t0, Add_specification 0 ''bedrooms'' ''3''),
      (t0, Add_specification 0 ''bathrooms'' ''2''),
      (t0, Add_specification 0 ''floors'' ''2''),
      (t0, Approve_plan 0),
      (t0, Create_design_plan 0 ''DP002'' ''road'' ''Main Highway Design'' 100000 1500000),
      (t0, Add_specification 1 ''lanes'' ''4''),
      (t0, Add_specification 1 ''surface'' ''asphalt''),
      (t0, Approve_plan 1),
      (t0, Create_housing_project 0 ''HP001'' ''Greenview Apartments'' ''apartment'' 24),
      (t0, Housing_assign_design_plan 0 0),
      (t0, Add_materials 0 ''cement'' 500 ''bags''),
      (t0, Add_materials 0 ''steel'' 10 ''tons''),
      (t0, Add_materials 0 ''bricks'' 50000 ''pieces''),
      (t0, Housing_start_construction 0 25),
      (t0, Create_road_project 0 ''RD001'' ''Central Highway'' ''highway'' (31 / 2)),
      (t0, Road_assign_design_plan 0 1),
      (t0, Set_road_specs 0 4 ''asphalt''),
      (t0, Add_equipment 0 ''excavator'' 2),
      (t0, Add_equipment 0 ''roller'' 3),
      (t0, Add_equipment 0 ''paver'' 1),
      (t0, Road_start_construction 0 40),
      (t0, Generate_report 0),
      (t0, Housing_get_project_info 0),
      (t0, Road_get_project_info 0)]"

definition main_report :: string where
  "main_report =
     concat (map (\<lambda>line. line @ newline)
       [[],
        banner,
        ''PREMIER CONSTRUCTION LTD. - CONSTRUCTION COMPANY REPORT'',
        banner,
        [],
        ''SUMMARY:'',
        ''--------'',
        ''Total Housing Projects: 1'',
        ''Total Road Projects: 1'',
        ''Total Design Plans: 2'',
        ''Active Projects: 2'',
        [],
        ''HOUSING PROJECTS:'',
        ''----------------'',
        ''  - Greenview Apartments (apartment): in_progress'',
        [],
        ''ROAD PROJECTS:'',
        ''-------------'',
        ''  - Central Highway (highway, 15.5km): in_progress'',
        [],
        banner,
        ''Generated on: 2024-03-09 14:05:00'',
        banner])"

definition main_results :: "result list" where
  "main_results =
     [CompanyRef 0, PlanRef 0, Nothing, Nothing, Nothing,
      Message ''Plan DP001 approved on 2024-03-09'', PlanRef 1, Nothing, Nothing,
      Message ''Plan DP002 approved on 2024-03-09'', HousingRef 0,
      Message ''Design plan DP001 assigned to Greenview Apartments'',
      Nothing, Nothing, Nothing,
      Message ''Construction started for Greenview Apartments with 25 workers'',
      RoadRef 0, Message ''Design plan DP002 assigned to Central Highway'',
      Nothing, Nothing, Nothing, Nothing,
      Message ''Road construction started for Central Highway with 40 workers'',
      Message main_report,
      HousingInfo
        \<lparr>hi_project_id = ''HP001'', hi_name = ''Greenview Apartments'',
         hi_type = ''apartment'', hi_units = 24, hi_status = ''in_progress'',
         hi_workers = 25, hi_materials_count = 3, hi_has_design_plan = True\<rparr>,
      RoadInfo
        \<lparr>ri_project_id = ''RD001'', ri_name = ''Central Highway'', ri_type = ''highway'',
         ri_length_km = 31 / 2, ri_lanes = 4, ri_surface = ''asphalt'',
         ri_status = ''in_progress'', ri_workers = 40, ri_equipment_count = 3,
         ri_has_design_plan = True\<rparr>]"

definition main_heap :: heap where
  "main_heap =
     \<lparr>plans =
        [\<lparr>plan_id = ''DP001'', plan_type = ''housing'',
          description = ''Residential Complex Blueprint'', area_sqft = 5000,
          estimated_cost = 250000, created_date = t0, approved = True,
          specifications = [(''bedrooms'', ''3''), (''bathrooms'', ''2''), (''floors'', ''2'')]\<rparr>,
         \<lparr>plan_id = ''DP002'', plan_type = ''road'', description = ''Main Highway Design'',
          area_sqft = 100000, estimated_cost = 1500000, created_date = t0, approved = True,
          specifications = [(''lanes'', ''4''), (''surface'', ''asphalt'')]\<rparr>],
      housings =
        [\<lparr>h_project_id = ''HP001'', h_project_name = ''Greenview Apartments'',
          housing_type = ''apartment'', num_units = 24, h_design_plan = Some 0,
          h_status = ''in_progress'', h_start_date = Some t0, h_completion_date = None,
          materials =
            [(''cement'', 500, ''bags''), (''steel'', 10, ''tons''),
             (''bricks'', 50000, ''pieces'')],
          h_workers_assigned = 25\<rparr>],
      roads =
        [\<lparr>r_project_id = ''RD001'', road_name = ''Central Highway'', road_type = ''highway'',
          length_km = 31 / 2, r_design_plan = Some 1, r_status = ''in_progress'', lanes = 4,
          surface_type = ''asphalt'', r_start_date = Some t0, r_completion_date = None,
          r_workers_assigned = 40,
          equipment = [(''excavator'', 2), (''roller'', 3), (''paver'', 1)]\<rparr>],
      companies =
        [\<lparr>company_name = ''Premier Construction Ltd.'', housing_projects = [0],
          road_projects = [0], design_plans = [0, 1], total_workers = 0,
          active_projects = 0\<rparr>]\<rparr>"

text \<open>A number of workers with 4301 digits.\<close>

definition huge_workers :: int where
  "huge_workers = 10 ^ 4300"

text \<open>Calls on the third plan of \<open>site\<close>, which is not approved there.\<close>

definition approvals :: "(datetime \<times> call) list" where
  "approvals =
     [(t0, Approve_plan 2), (t0, Approve_plan 2), (t0, Add_specification 2 ''floors'' ''1''),
      (t0, Housing_assign_design_plan 0 2), (t0, Approve_plan 2), (t0, Get_details 2)]"


section \<open>The methods that can fail\<close>

text \<open>
  C1. \<^verbatim>\<open>assign_design_plan\<close> of a housing project and of a road project, called with a plan
  of the store: the call returns; the returned string is not an error exactly when the
  plan is approved and its \<^verbatim>\<open>plan_type\<close> is \<^verbatim>\<open>'housing'\<close> (for the road project
  \<^verbatim>\<open>'road'\<close>); then the project's \<^verbatim>\<open>design_plan\<close> is the plan and the string is the
  confirmation; otherwise the project's \<^verbatim>\<open>design_plan\<close> is what it was.
\<close>

theorem assign_design_plan_iff:
  "(hp < length (housings h) \<and> p < length (plans h) \<longrightarrow>
      (case HousingProject_assign_design_plan hp p h of
         None \<Rightarrow> False
       | Some (msg, h') \<Rightarrow>
           (\<not> is_error msg) = (approved (plans h ! p) \<and> plan_type (plans h ! p) = ''housing'')
           \<and> (if is_error msg
               then h_design_plan (housings h' ! hp) = h_design_plan (housings h ! hp)
               else h_design_plan (housings h' ! hp) = Some p
                    \<and> msg = ''Design plan '' @ plan_id (plans h ! p) @ '' assigned to ''
                              @ h_project_name (housings h ! hp))))
   \<and> (rp < length (roads h) \<and> p < length (plans h) \<longrightarrow>
      (case RoadProject_assign_design_plan rp p h of
         None \<Rightarrow> False
       | Some (msg, h') \<Rightarrow>
           (\<not> is_error msg) = (approved (plans h ! p) \<and> plan_type (plans h ! p) = ''road'')
           \<and> (if is_error msg
               then r_design_plan (roads h' ! rp) = r_design_plan (roads h ! rp)
               else r_design_plan (roads h' ! rp) = Some p
                    \<and> msg = ''Design plan '' @ plan_id (plans h ! p) @ '' assigned to ''
                              @ road_name (roads h ! rp))))"
  by (simp add: HousingProject_assign_design_plan_def RoadProject_assign_design_plan_def
      Let_def is_error_def)

theorem assign_design_plan_iff_witness:
  "(0 < length (housings site) \<and> 0 < length (roads site) \<and> 1 < length (plans site))
   \<and> (case HousingProject_assign_design_plan 0 1 site of
         None \<Rightarrow> False
       | Some (msg, h') \<Rightarrow> is_error msg \<and> h_design_plan (housings h' ! 0) = Some 0)
   \<and> (case RoadProject_assign_design_plan 0 1 site of
         None \<Rightarrow> False
       | Some (msg, h') \<Rightarrow>
           msg = ''Design plan DP002 assigned to Central Highway''
           \<and> r_design_plan (roads h' ! 0) = Some 1)"
proof -
  have hyp: "0 < length (housings site)" "0 < length (roads site)" "1 < length (plans site)"
    by (simp_all add: site_def)
  from assign_design_plan_iff [where hp = 0 and h = site and p = 1 and rp = 0] hyp show ?thesis
    by (simp add: site_def HousingProject_assign_design_plan_def
        RoadProject_assign_design_plan_def is_error_def quote_def)
qed

subsection \<open>The limit of the conversion from \<^verbatim>\<open>int\<close> to \<^verbatim>\<open>str\<close>\<close>

text \<open>
  An integer has at most \<open>k\<close> decimal digits exactly when its absolute value is below
  \<open>10 ^ k\<close>; \<open>huge_workers\<close> has one digit more than the limit.
\<close>

lemma length_str_nat_pow10: "length (str_nat (10 ^ k)) = Suc k"
proof (induction k)
  case 0
  show ?case
    by (simp add: str_nat.simps)
next
  case (Suc k)
  have "\<not> (10::nat) ^ Suc k < 10"
    by simp
  moreover have "(10::nat) ^ Suc k div 10 = 10 ^ k"
    by simp
  ultimately have "str_nat (10 ^ Suc k) = str_nat (10 ^ k) @ [digit_char (10 ^ Suc k)]"
    by (subst str_nat.simps) (simp only: if_False)
  with Suc.IH show ?case
    by simp
qed

lemma length_str_nat_le: "0 < k \<Longrightarrow> (length (str_nat m) \<le> k) = (m < 10 ^ k)"
proof (induction m arbitrary: k rule: str_nat.induct)
  case (1 n)
  show ?case
  proof (cases "n < 10")
    case True
    have "(10::nat) ^ 1 \<le> 10 ^ k"
      using "1.prems" by (intro power_increasing) simp_all
    with True "1.prems" show ?thesis
      by (subst str_nat.simps) simp
  next
    case False
    then have s: "str_nat n = str_nat (n div 10) @ [digit_char n]"
      by (subst str_nat.simps) simp
    show ?thesis
    proof (cases "k = 1")
      case True
      have "0 < length (str_nat (n div 10))"
        by (subst str_nat.simps) simp
      with True False s show ?thesis
        by simp
    next
      case k: False
      with "1.prems" obtain j where j: "k = Suc j" "0 < j"
        by (cases k) auto
      from "1.IH" [OF False j(2)] have "(length (str_nat (n div 10)) \<le> j) = (n div 10 < 10 ^ j)" .
      moreover have "(n div 10 < 10 ^ j) = (n < 10 ^ Suc j)"
        by (simp add: div_less_iff_less_mult mult.commute)
      ultimately show ?thesis
        by (simp add: s j)
    qed
  qed
qed

lemma int_str_digits_le: "0 < k \<Longrightarrow> (int_str_digits n \<le> k) = (\<bar>n\<bar> < 10 ^ k)"
proof -
  assume "0 < k"
  then have "(int_str_digits n \<le> k) = (nat \<bar>n\<bar> < 10 ^ k)"
    by (simp add: int_str_digits_def length_str_nat_le)
  also have "\<dots> = (\<bar>n\<bar> < 10 ^ k)"
    by (simp add: nat_less_iff)
  finally show ?thesis .
qed

lemma huge_workers_digits: "int_str_digits huge_workers = Suc 4300"
proof -
  have "nat \<bar>(10::int) ^ k\<bar> = 10 ^ k" for k
    by (simp add: nat_power_eq)
  then have "int_str_digits huge_workers = length (str_nat (10 ^ 4300))"
    unfolding huge_workers_def int_str_digits_def by (simp only:)
  then show ?thesis
    by (simp only: length_str_nat_pow10)
qed

lemma format_int_huge_workers: "format_int huge_workers = Inl ValueError"
  by (simp add: format_int_def huge_workers_digits int_max_str_digits_def)

subsection \<open>Starting construction\<close>

text \<open>
  C2. \<^verbatim>\<open>start_construction(n)\<close> of a housing project and of a road project whose
  \<^verbatim>\<open>design_plan\<close>, when set, is a plan of the store, for every integer \<open>n\<close>. When the
  call returns, the returned string is not an error exactly when a design plan is set and
  that plan is approved; then \<open>n\<close> has at most 4300 decimal digits, \<^verbatim>\<open>status\<close> is
  \<^verbatim>\<open>'in_progress'\<close>, \<^verbatim>\<open>workers_assigned\<close> is \<open>n\<close> and \<^verbatim>\<open>start_date\<close> is the clock
  reading; otherwise the whole store is unchanged. The call raises only
  \<^verbatim>\<open>ValueError\<close>, and only when a design plan is set and approved and \<open>n\<close> has more
  than 4300 decimal digits. So for every \<open>n\<close> of at most 4300 digits the call returns and
  succeeds exactly when a design plan is set and approved.
\<close>

theorem start_construction_iff:
  "(hp < length (housings h)
    \<and> (case h_design_plan (housings h ! hp) of None \<Rightarrow> True | Some d \<Rightarrow> d < length (plans h))
    \<longrightarrow>
      (case HousingProject_start_construction now hp n h of
         None \<Rightarrow> False
       | Some (Raised e, h') \<Rightarrow>
           e = ValueError \<and> \<not> \<bar>n\<bar> < 10 ^ int_max_str_digits
           \<and> (case h_design_plan (housings h ! hp) of
                 None \<Rightarrow> False | Some d \<Rightarrow> approved (plans h ! d))
       | Some (Returned msg, h') \<Rightarrow>
           (\<not> is_error msg) =
             (case h_design_plan (housings h ! hp) of
                None \<Rightarrow> False | Some d \<Rightarrow> approved (plans h ! d))
           \<and> (if is_error msg then h' = h
               else \<bar>n\<bar> < 10 ^ int_max_str_digits
                    \<and> h_status (housings h' ! hp) = ''in_progress''
                    \<and> h_workers_assigned (housings h' ! hp) = n
                    \<and> h_start_date (housings h' ! hp) = Some now)))
   \<and> (rp < length (roads h)
       \<and> (case r_design_plan (roads h ! rp) of None \<Rightarrow> True | Some d \<Rightarrow> d < length (plans h))
       \<longrightarrow>
      (case RoadProject_start_construction now rp n h of
         None \<Rightarrow> False
       | Some (Raised e, h') \<Rightarrow>
           e = ValueError \<and> \<not> \<bar>n\<bar> < 10 ^ int_max_str_digits
           \<and> (case r_design_plan (roads h ! rp) of
                 None \<Rightarrow> False | Some d \<Rightarrow> approved (plans h ! d))
       | Some (Returned msg, h') \<Rightarrow>
           (\<not> is_error msg) =
             (case r_design_plan (roads h ! rp) of
                None \<Rightarrow> False | Some d \<Rightarrow> approved (plans h ! d))
           \<and> (if is_error msg then h' = h
               else \<bar>n\<bar> < 10 ^ int_max_str_digits
                    \<and> r_status (roads h' ! rp) = ''in_progress''
                    \<and> r_workers_assigned (roads h' ! rp) = n
                    \<and> r_start_date (roads h' ! rp) = Some now)))"
proof -
  have fits: "(int_max_str_digits < int_str_digits n) = (\<not> \<bar>n\<bar> < 10 ^ int_max_str_digits)"
  proof -
    have "0 < int_max_str_digits"
      by (simp add: int_max_str_digits_def)
    from int_str_digits_le [OF this, of n] show ?thesis
      by auto
  qed
  show ?thesis
    by (auto simp: HousingProject_start_construction_def RoadProject_start_construction_def
        Let_def is_error_def format_int_def fits split: option.splits)
qed


theorem start_construction_iff_witness:
  "(0 < length (housings site) \<and> 0 < length (roads site)
    \<and> h_design_plan (housings site ! 0) = Some 0 \<and> 0 < length (plans site)
    \<and> r_design_plan (roads site ! 0) = None)
   \<and> (case HousingProject_start_construction t0 0 25 site of
         None \<Rightarrow> False
       | Some (Raised e, h') \<Rightarrow> False
       | Some (Returned msg, h') \<Rightarrow>
           msg = ''Construction started for Greenview Apartments with 25 workers''
           \<and> h_status (housings h' ! 0) = ''in_progress''
           \<and> h_workers_assigned (housings h' ! 0) = 25
           \<and> h_start_date (housings h' ! 0) = Some t0)
   \<and> RoadProject_start_construction t0 0 40 site =
       Some (Returned ''Error: Approved design plan required to start construction'', site)"
proof -
  have hyp: "0 < length (housings site)" "0 < length (roads site)"
    "h_design_plan (housings site ! 0) = Some 0" "0 < length (plans site)"
    "r_design_plan (roads site ! 0) = None"
    by (simp_all add: site_def)
  have s: "format_int 25 = Inr ''25''"
    by (simp add: format_int_def int_str_digits_def int_max_str_digits_def str_int_def
        str_nat.simps digit_char_def)
  have "HousingProject_start_construction t0 0 25 site \<noteq> None"
    "RoadProject_start_construction t0 0 40 site \<noteq> None"
    using start_construction_iff [where hp = 0 and h = site and now = t0 and n = 25 and rp = 0]
      start_construction_iff [where hp = 0 and h = site and now = t0 and n = 40 and rp = 0] hyp
    by (auto split: option.splits)
  with hyp show ?thesis
    by (simp add: site_def HousingProject_start_construction_def
        RoadProject_start_construction_def s)
qed

text \<open>
  With an approved plan and \<open>huge_workers\<close> the call does not return: it raises
  \<^verbatim>\<open>ValueError\<close>, after the three fields have been written.
\<close>

theorem start_construction_raises_counterexample:
  "h_design_plan (housings site ! 0) = Some 0 \<and> approved (plans site ! 0)
   \<and> HousingProject_start_construction t0 0 huge_workers site =
       Some (Raised ValueError,
             site\<lparr>housings :=
                    [(housings site ! 0)
                       \<lparr>h_status := ''in_progress'', h_start_date := Some t0,
                        h_workers_assigned := huge_workers\<rparr>]\<rparr>)"
  by (simp add: site_def HousingProject_start_construction_def format_int_huge_workers)

text \<open>
  C3. \<^verbatim>\<open>schedule_maintenance\<close> of a road project: the call returns; the returned string is
  not an error exactly when \<^verbatim>\<open>status\<close> is the string \<^verbatim>\<open>'completed'\<close>; then \<^verbatim>\<open>status\<close>
  becomes \<^verbatim>\<open>'maintenance'\<close> and the string is the confirmation; for every other status the
  string is an error and the status stays.
\<close>

theorem schedule_maintenance_iff:
  assumes "rp < length (roads h)"
  shows "case schedule_maintenance rp h of
           None \<Rightarrow> False
         | Some (msg, h') \<Rightarrow>
             (\<not> is_error msg) = (r_status (roads h ! rp) = ''completed'')
             \<and> (if is_error msg then r_status (roads h' ! rp) = r_status (roads h ! rp)
                 else r_status (roads h' ! rp) = ''maintenance''
                      \<and> msg = ''Maintenance scheduled for '' @ road_name (roads h ! rp))"
  using assms by (simp add: schedule_maintenance_def Let_def is_error_def)

theorem schedule_maintenance_iff_witness:
  "0 < length (roads site)
   \<and> (case schedule_maintenance 0 site of
         None \<Rightarrow> False
       | Some (msg, h') \<Rightarrow>
           msg = ''Maintenance scheduled for Central Highway''
           \<and> r_status (roads h' ! 0) = ''maintenance''
           \<and> (case schedule_maintenance 0 h' of
                 None \<Rightarrow> False
               | Some (msg2, h2) \<Rightarrow> is_error msg2 \<and> r_status (roads h2 ! 0) = ''maintenance''))"
proof -
  have hyp: "0 < length (roads site)"
    by (simp add: site_def)
  from schedule_maintenance_iff [OF hyp] hyp show ?thesis
    by (simp add: site_def schedule_maintenance_def is_error_def)
qed




section \<open>Completion\<close>

text \<open>
  C7. \<^verbatim>\<open>complete_project\<close> of a housing project and of a road project, whatever the
  \<^verbatim>\<open>status\<close> before the call (the statement has no hypothesis on it): the call returns the
  confirmation, \<^verbatim>\<open>status\<close> is \<^verbatim>\<open>'completed'\<close> and \<^verbatim>\<open>completion_date\<close> is the clock
  reading.
\<close>

theorem complete_project_unconditional:
  "(hp < length (housings h) \<longrightarrow>
      (case HousingProject_complete_project now hp h of
         None \<Rightarrow> False
       | Some (msg, h') \<Rightarrow>
           msg = ''Housing project '' @ h_project_name (housings h ! hp)
                   @ '' completed on '' @ strftime_date now
           \<and> \<not> is_error msg
           \<and> h_status (housings h' ! hp) = ''completed''
           \<and> h_completion_date (housings h' ! hp) = Some now))
   \<and> (rp < length (roads h) \<longrightarrow>
      (case RoadProject_complete_project now rp h of
         None \<Rightarrow> False
       | Some (msg, h') \<Rightarrow>
           msg = ''Road project '' @ road_name (roads h ! rp)
                   @ '' completed on '' @ strftime_date now
           \<and> \<not> is_error msg
           \<and> r_status (roads h' ! rp) = ''completed''
           \<and> r_completion_date (roads h' ! rp) = Some now))"
  by (simp add: HousingProject_complete_project_def RoadProject_complete_project_def
      Let_def is_error_def)

theorem complete_project_unconditional_witness:
  "(0 < length (housings site) \<and> 0 < length (roads site))
   \<and> h_status (housings site ! 0) = ''planned'' \<and> r_status (roads site ! 0) = ''completed''
   \<and> (case HousingProject_complete_project t0 0 site of
         None \<Rightarrow> False
       | Some (msg, h') \<Rightarrow>
           msg = ''Housing project Greenview Apartments completed on 2024-03-09''
           \<and> h_status (housings h' ! 0) = ''completed''
           \<and> h_completion_date (housings h' ! 0) = Some t0)
   \<and> (case RoadProject_complete_project t0 0 site of
         None \<Rightarrow> False
       | Some (msg, h') \<Rightarrow>
           r_status (roads h' ! 0) = ''completed'' \<and> r_completion_date (roads h' ! 0) = Some t0)"
proof -
  have hyp: "0 < length (housings site)" "0 < length (roads site)"
    by (simp_all add: site_def)
  have d: "strftime_date t0 = ''2024-03-09''"
    by (simp add: strftime_date_def zero_pad_def t0_def str_nat.simps digit_char_def)
  from complete_project_unconditional [where hp = 0 and h = site and now = t0 and rp = 0] hyp show ?thesis
    by (simp add: site_def HousingProject_complete_project_def
        RoadProject_complete_project_def d is_error_def)
qed

section \<open>Runs\<close>

subsection \<open>Evaluation of the examples\<close>

lemmas method_defs =
  DesignPlan_init_def add_specification_def approve_plan_def get_details_def
  HousingProject_init_def HousingProject_assign_design_plan_def
  HousingProject_start_construction_def add_materials_def HousingProject_complete_project_def
  HousingProject_get_project_info_def
  RoadProject_init_def RoadProject_assign_design_plan_def set_road_specs_def
  RoadProject_start_construction_def add_equipment_def schedule_maintenance_def
  RoadProject_complete_project_def RoadProject_get_project_info_def
  ConstructionCompany_init_def create_design_plan_def create_housing_project_def
  create_road_project_def

lemmas wrap_defs = returning_def mutating_def reading_def ending_def

lemma stamp: "strftime_datetime t0 = ''2024-03-09 14:05:00''" "strftime_date t0 = ''2024-03-09''"
  by (simp_all add: strftime_datetime_def strftime_date_def zero_pad_def t0_def str_nat.simps digit_char_def)

lemma up: "upper ''Premier Construction Ltd.'' = ''PREMIER CONSTRUCTION LTD.''"
  by code_simp


lemma main_run: "run str_float0 main_calls empty_heap = Some (main_results, main_heap)"
  by (simp add: main_calls_def empty_heap_def main_heap_def main_results_def main_report_def
      method_defs wrap_defs generate_report_def get_all_projects_def lookup_def
      in_progress_count_def report_header_def report_footer_def report_roads_header_def
      housing_line_def road_line_def str_float0_def str_int_def str_nat.simps digit_char_def
      format_int_def int_str_digits_def int_max_str_digits_def
      stamp up banner_def newline_def)

subsection \<open>What every call preserves\<close>

lemma run_invariant:
  assumes step: "\<And>now c h x h'. exec sf now c h = Some (x, h') \<Longrightarrow> I h \<Longrightarrow> I h'"
    and "run sf cs h = Some (xs, h')" and "I h"
  shows "I h'"
  using assms(2,3)
proof (induction cs arbitrary: h xs)
  case Nil
  then show ?case by simp
next
  case (Cons a cs)
  obtain now c where a: "a = (now, c)" by (cases a)
  from Cons.prems(1) a obtain x h1 ys where
    e: "exec sf now c h = Some (x, h1)" and rest: "run sf cs h1 = Some (ys, h')"
    by (auto split: option.splits)
  from step [OF e Cons.prems(2)] Cons.IH [OF rest]
  show ?case by simp
qed

lemma exec_plans_mono:
  assumes "exec sf now c h = Some (x, h')" and "p < length (plans h)"
  shows "p < length (plans h') \<and> plan_type (plans h' ! p) = plan_type (plans h ! p)
         \<and> (approved (plans h ! p) \<longrightarrow> approved (plans h' ! p))"
  using assms
  by (cases c)
     (auto simp: method_defs wrap_defs Let_def nth_append nth_list_update
           split: if_splits option.splits sum.splits)

lemma run_plans_mono:
  assumes "run sf cs h = Some (xs, h')" and "p < length (plans h)"
  shows "p < length (plans h') \<and> plan_type (plans h' ! p) = plan_type (plans h ! p)
         \<and> (approved (plans h ! p) \<longrightarrow> approved (plans h' ! p))"
proof -
  let ?I = "\<lambda>k. p < length (plans k) \<and> plan_type (plans k ! p) = plan_type (plans h ! p)
                \<and> (approved (plans h ! p) \<longrightarrow> approved (plans k ! p))"
  have "?I h'"
  proof (rule run_invariant [where I = ?I, OF _ assms(1)])
    show "?I h" using assms(2) by simp
  next
    fix now c k x k'
    assume "exec sf now c k = Some (x, k')" and "?I k"
    then show "?I k'"
      using exec_plans_mono [of sf now c k x k' p] by simp
  qed
  then show ?thesis .
qed

lemma run_approve_plan:
  assumes "run sf cs h = Some (xs, h')" and "p < length (plans h)"
    and "Approve_plan p \<in> snd ` set cs"
  shows "approved (plans h' ! p)"
  using assms
proof (induction cs arbitrary: h xs)
  case Nil
  then show ?case by simp
next
  case (Cons a cs)
  obtain now c where a: "a = (now, c)" by (cases a)
  from Cons.prems(1) a obtain x h1 ys where
    e: "exec sf now c h = Some (x, h1)" and rest: "run sf cs h1 = Some (ys, h')"
    by (auto split: option.splits)
  from exec_plans_mono [OF e Cons.prems(2)] have p1: "p < length (plans h1)"
    by simp
  show ?case
  proof (cases "c = Approve_plan p")
    case True
    with e Cons.prems(2) have "approved (plans h1 ! p)"
      by (auto simp: approve_plan_def returning_def Let_def)
    with run_plans_mono [OF rest p1] show ?thesis
      by simp
  next
    case False
    with Cons.prems(3) a have "Approve_plan p \<in> snd ` set cs"
      by auto
    from Cons.IH [OF rest p1 this] show ?thesis .
  qed
qed

text \<open>
  C5. \<^verbatim>\<open>approved\<close> of a design plan: the constructor sets it to \<open>False\<close>;
  \<^verbatim>\<open>approve_plan\<close> sets it to \<open>True\<close>; and after any run of calls from a store that holds
  the plan, the plan is approved if it was approved before the run or if the run calls
  \<^verbatim>\<open>approve_plan\<close> on it at least once, whatever else the run calls, before or after. So
  no constructor or method of any class sets it back, and approving again changes nothing.
\<close>

theorem approved_is_monotonic:
  "(case DesignPlan_init now pid ptype descr area cost h of
      (p, h') \<Rightarrow> \<not> approved (plans h' ! p))
   \<and> (p < length (plans h) \<longrightarrow>
        (case approve_plan now p h of
           None \<Rightarrow> False
         | Some (msg, h') \<Rightarrow> approved (plans h' ! p)))
   \<and> (p < length (plans h) \<and> run sf cs h = Some (xs, h')
        \<and> (approved (plans h ! p) \<or> Approve_plan p \<in> snd ` set cs) \<longrightarrow>
        p < length (plans h') \<and> approved (plans h' ! p))"
proof (intro conjI impI)
  show "case DesignPlan_init now pid ptype descr area cost h of
          (p, h') \<Rightarrow> \<not> approved (plans h' ! p)"
    by (simp add: DesignPlan_init_def)
next
  assume "p < length (plans h)"
  then show "case approve_plan now p h of
               None \<Rightarrow> False
             | Some (msg, h') \<Rightarrow> approved (plans h' ! p)"
    by (simp add: approve_plan_def Let_def)
next
  assume a: "p < length (plans h) \<and> run sf cs h = Some (xs, h')
        \<and> (approved (plans h ! p) \<or> Approve_plan p \<in> snd ` set cs)"
  then show "p < length (plans h')"
    using run_plans_mono [of sf cs h xs h' p] by simp
  from a show "approved (plans h' ! p)"
    using run_plans_mono [of sf cs h xs h' p] run_approve_plan [of sf cs h xs h' p]
    by blast
qed

theorem approved_is_monotonic_witness:
  "(2 < length (plans site) \<and> \<not> approved (plans site ! 2)
    \<and> Approve_plan 2 \<in> snd ` set approvals)
   \<and> (case run str_float0 approvals site of
         None \<Rightarrow> False
       | Some (xs, h') \<Rightarrow> length xs = 6 \<and> approved (plans h' ! 2))"
proof -
  have hyp: "2 < length (plans site)" "\<not> approved (plans site ! 2)"
    "Approve_plan 2 \<in> snd ` set approvals"
    by (simp_all add: site_def approvals_def)
  have "run str_float0 approvals site \<noteq> None"
    by (simp add: approvals_def site_def method_defs wrap_defs)
  then obtain xs h' where r: "run str_float0 approvals site = Some (xs, h')"
    by auto
  then have len: "length xs = 6"
    by (auto simp: approvals_def split: option.splits)
  from approved_is_monotonic [of t0 "[]" "[]" "[]" 0 0 site 2 str_float0 approvals xs h'] hyp r
  have "approved (plans h' ! 2)"
    by simp
  with hyp r len show ?thesis
    by simp
qed

lemma plan_ok_mono:
  assumes "plan_ok kind h d" and "exec sf now c h = Some (x, h')"
  shows "plan_ok kind h' d"
  using assms(1) exec_plans_mono [OF assms(2)]
  by (auto simp: plan_ok_def split: option.splits)

lemma design_plans_valid_nth:
  "design_plans_valid h =
     ((\<forall>i < length (housings h). plan_ok ''housing'' h (h_design_plan (housings h ! i)))
      \<and> (\<forall>i < length (roads h). plan_ok ''road'' h (r_design_plan (roads h ! i))))"
  by (simp add: design_plans_valid_def all_set_conv_all_nth)

lemma exec_housing_plan:
  assumes "exec sf now c h = Some (x, h')" and "i < length (housings h')"
  shows "(i < length (housings h) \<and> h_design_plan (housings h' ! i) = h_design_plan (housings h ! i))
         \<or> h_design_plan (housings h' ! i) = None
         \<or> plan_ok ''housing'' h (h_design_plan (housings h' ! i))"
  using assms
  by (cases c)
     (auto simp: method_defs wrap_defs Let_def nth_append nth_list_update plan_ok_def
           split: if_splits option.splits sum.splits)

lemma exec_road_plan:
  assumes "exec sf now c h = Some (x, h')" and "i < length (roads h')"
  shows "(i < length (roads h) \<and> r_design_plan (roads h' ! i) = r_design_plan (roads h ! i))
         \<or> r_design_plan (roads h' ! i) = None
         \<or> plan_ok ''road'' h (r_design_plan (roads h' ! i))"
  using assms
  by (cases c)
     (auto simp: method_defs wrap_defs Let_def nth_append nth_list_update plan_ok_def
           split: if_splits option.splits sum.splits)

lemma exec_design_plans_valid:
  assumes "exec sf now c h = Some (x, h')" and "design_plans_valid h"
  shows "design_plans_valid h'"
proof -
  have "plan_ok ''housing'' h' (h_design_plan (housings h' ! i))" if "i < length (housings h')" for i
  proof -
    from exec_housing_plan [OF assms(1) that] assms(2)
    have "plan_ok ''housing'' h (h_design_plan (housings h' ! i))"
      by (auto simp: design_plans_valid_nth plan_ok_def)
    then show ?thesis
      by (rule plan_ok_mono [OF _ assms(1)])
  qed
  moreover
  have "plan_ok ''road'' h' (r_design_plan (roads h' ! i))" if "i < length (roads h')" for i
  proof -
    from exec_road_plan [OF assms(1) that] assms(2)
    have "plan_ok ''road'' h (r_design_plan (roads h' ! i))"
      by (auto simp: design_plans_valid_nth plan_ok_def)
    then show ?thesis
      by (rule plan_ok_mono [OF _ assms(1)])
  qed
  ultimately show ?thesis
    by (simp add: design_plans_valid_nth)
qed

text \<open>
  C9. In every store in which a run from the empty store ends, the \<^verbatim>\<open>design_plan\<close> of
  every housing project and of every road project is \<^verbatim>\<open>None\<close> or refers to an approved
  plan of the project's kind; and every single call keeps it so, from whatever store in
  which it holds.
\<close>

theorem design_plan_invariant:
  "(run sf cs empty_heap = Some (xs, h) \<longrightarrow> design_plans_valid h)
   \<and> (design_plans_valid h0 \<and> exec sf now c h0 = Some (x, h1) \<longrightarrow> design_plans_valid h1)"
proof (intro conjI impI)
  assume r: "run sf cs empty_heap = Some (xs, h)"
  show "design_plans_valid h"
  proof (rule run_invariant [where I = design_plans_valid, OF _ r])
    show "design_plans_valid empty_heap"
      by (simp add: design_plans_valid_def empty_heap_def)
  next
    fix t c k x k'
    assume "exec sf t c k = Some (x, k')" and "design_plans_valid k"
    then show "design_plans_valid k'"
      by (rule exec_design_plans_valid)
  qed
next
  assume "design_plans_valid h0 \<and> exec sf now c h0 = Some (x, h1)"
  then show "design_plans_valid h1"
    using exec_design_plans_valid [of sf now c h0 x h1] by simp
qed

theorem design_plan_invariant_witness:
  "design_plans_valid site
   \<and> (case exec str_float0 t0 (Road_assign_design_plan 0 1) site of
         None \<Rightarrow> False
       | Some (x, h1) \<Rightarrow>
           x = Message ''Design plan DP002 assigned to Central Highway''
           \<and> r_design_plan (roads h1 ! 0) = Some 1 \<and> design_plans_valid h1)
   \<and> run str_float0 main_calls empty_heap = Some (main_results, main_heap)
   \<and> design_plans_valid main_heap
   \<and> h_design_plan (housings main_heap ! 0) = Some 0
   \<and> r_design_plan (roads main_heap ! 0) = Some 1"
proof -
  have s: "design_plans_valid site"
    by (simp add: design_plans_valid_def plan_ok_def site_def)
  have "exec str_float0 t0 (Road_assign_design_plan 0 1) site \<noteq> None"
    by (simp add: site_def method_defs wrap_defs)
  then obtain x h1 where e: "exec str_float0 t0 (Road_assign_design_plan 0 1) site = Some (x, h1)"
    by auto
  then have x: "x = Message ''Design plan DP002 assigned to Central Highway''"
    "r_design_plan (roads h1 ! 0) = Some 1"
    by (auto simp: site_def method_defs wrap_defs)
  from design_plan_invariant
    [of str_float0 main_calls main_results main_heap site t0 "Road_assign_design_plan 0 1" x h1]
    main_run s e
  have "design_plans_valid main_heap" "design_plans_valid h1"
    by simp_all
  with s e x main_run show ?thesis
    by (simp add: main_heap_def)
qed

lemma registry_ok_nth:
  "registry_ok h = (\<forall>i < length (companies h). company_ok h (companies h ! i))"
  by (simp add: registry_ok_def all_set_conv_all_nth)

lemma exec_lengths:
  assumes "exec sf now c h = Some (x, h')"
  shows "length (plans h) \<le> length (plans h') \<and> length (housings h) \<le> length (housings h')
         \<and> length (roads h) \<le> length (roads h') \<and> length (companies h) \<le> length (companies h')"
  using assms
  by (cases c)
     (auto simp: method_defs wrap_defs Let_def split: if_splits option.splits sum.splits)

lemma company_ok_mono:
  assumes "company_ok h c" and "exec sf now cl h = Some (x, h')"
  shows "company_ok h' c"
  using assms(1) exec_lengths [OF assms(2)]
  by (fastforce simp: company_ok_def)

lemma exec_company:
  assumes "exec sf now c h = Some (x, h')" and "i < length (companies h')"
  shows "(i < length (companies h) \<and> companies h' ! i = companies h ! i)
         \<or> (i = length (companies h) \<and>
             (\<exists>cname. companies h' ! i =
                \<lparr>company_name = cname, housing_projects = [], road_projects = [],
                 design_plans = [], total_workers = 0, active_projects = 0\<rparr>))
         \<or> (i < length (companies h) \<and> length (plans h') = Suc (length (plans h)) \<and>
             companies h' ! i = (companies h ! i)
                \<lparr>design_plans := design_plans (companies h ! i) @ [length (plans h)]\<rparr>)
         \<or> (i < length (companies h) \<and> length (housings h') = Suc (length (housings h)) \<and>
             companies h' ! i = (companies h ! i)
                \<lparr>housing_projects := housing_projects (companies h ! i) @ [length (housings h)]\<rparr>)
         \<or> (i < length (companies h) \<and> length (roads h') = Suc (length (roads h)) \<and>
             companies h' ! i = (companies h ! i)
                \<lparr>road_projects := road_projects (companies h ! i) @ [length (roads h)]\<rparr>)"
  using assms
  by (cases c; clarsimp simp: method_defs wrap_defs Let_def nth_append nth_list_update
           split: if_splits option.splits sum.splits)

lemma exec_registry_ok:
  assumes "exec sf now c h = Some (x, h')" and "registry_ok h"
  shows "registry_ok h'"
proof -
  have "company_ok h' (companies h' ! i)" if i: "i < length (companies h')" for i
  proof -
    have old: "company_ok h' (companies h ! i)" if "i < length (companies h)"
      using that assms(2) company_ok_mono [OF _ assms(1)]
      by (simp add: registry_ok_nth)
    have old0: "company_ok h (companies h ! i)" if "i < length (companies h)"
      using that assms(2) by (simp add: registry_ok_nth)
    from exec_company [OF assms(1) i] old old0 show ?thesis
      by (elim disjE conjE exE) (auto simp: company_ok_def)
  qed
  then show ?thesis
    by (simp add: registry_ok_nth)
qed

lemma run_registry_ok:
  assumes "run sf cs empty_heap = Some (xs, h)"
  shows "registry_ok h"
proof (rule run_invariant [where I = registry_ok, OF _ assms])
  show "registry_ok empty_heap"
    by (simp add: registry_ok_def empty_heap_def)
next
  fix t c k x k'
  assume "exec sf t c k = Some (x, k')" and "registry_ok k"
  then show "registry_ok k'"
    by (rule exec_registry_ok)
qed

lemma lookup_all_valid:
  "\<forall>r \<in> set rs. r < length xs \<Longrightarrow> lookup_all xs rs = Some (map (\<lambda>r. xs ! r) rs)"
  by (induction rs) (simp_all add: lookup_def)

lemma in_progress_count_eq:
  "in_progress_count status ps = int (length (filter (\<lambda>p. status p = ''in_progress'') ps))"
  unfolding in_progress_count_def
  by (induction ps) simp_all

lemma filter_map_nth_length:
  "length (filter P (map f rs)) = length (filter (\<lambda>r. P (f r)) rs)"
  by (induction rs) simp_all

lemma distinct_filter_card:
  "distinct rs \<Longrightarrow> length (filter P rs) = card {r \<in> set rs. P r}"
proof -
  assume "distinct rs"
  then have "length (filter P rs) = card ({x. P x} \<inter> set rs)"
    by (rule distinct_length_filter)
  also have "{x. P x} \<inter> set rs = {r \<in> set rs. P r}"
    by auto
  finally show ?thesis .
qed

lemma get_all_projects_counts:
  assumes "c < length (companies h)" and "company_ok h (companies h ! c)"
  shows "get_all_projects c h =
           Some \<lparr>s_company_name = company_name (companies h ! c),
                 total_housing_projects = int (length (housing_projects (companies h ! c))),
                 total_road_projects = int (length (road_projects (companies h ! c))),
                 total_design_plans = int (length (design_plans (companies h ! c))),
                 active_housing_projects =
                   int (card {p \<in> set (housing_projects (companies h ! c)).
                               h_status (housings h ! p) = ''in_progress''}),
                 active_road_projects =
                   int (card {p \<in> set (road_projects (companies h ! c)).
                               r_status (roads h ! p) = ''in_progress''}),
                 total_active_projects =
                   int (card {p \<in> set (housing_projects (companies h ! c)).
                               h_status (housings h ! p) = ''in_progress''})
                   + int (card {p \<in> set (road_projects (companies h ! c)).
                               r_status (roads h ! p) = ''in_progress''})\<rparr>"
proof -
  let ?C = "companies h ! c"
  from assms(2) have hs: "lookup_all (housings h) (housing_projects ?C)
                            = Some (map (\<lambda>r. housings h ! r) (housing_projects ?C))"
    and rs: "lookup_all (roads h) (road_projects ?C)
                            = Some (map (\<lambda>r. roads h ! r) (road_projects ?C))"
    by (simp_all add: company_ok_def lookup_all_valid)
  from assms(2) have d: "distinct (housing_projects ?C)" "distinct (road_projects ?C)"
    by (simp_all add: company_ok_def)
  have ch: "in_progress_count h_status (map (\<lambda>r. housings h ! r) (housing_projects ?C))
              = int (card {p \<in> set (housing_projects ?C). h_status (housings h ! p) = ''in_progress''})"
    using d(1) by (simp add: in_progress_count_eq filter_map_nth_length distinct_filter_card)
  have cr: "in_progress_count r_status (map (\<lambda>r. roads h ! r) (road_projects ?C))
              = int (card {p \<in> set (road_projects ?C). r_status (roads h ! p) = ''in_progress''})"
    using d(2) by (simp add: in_progress_count_eq filter_map_nth_length distinct_filter_card)
  show ?thesis
    using assms(1) by (simp add: get_all_projects_def lookup_def hs rs ch cr Let_def)
qed

text \<open>
  C6. In every store in which a run from the empty store ends, \<^verbatim>\<open>get_all_projects\<close> of
  a company returns; the three totals are the lengths of the company's collections, the two
  active counts are the numbers of its housing projects and of its road projects whose
  \<^verbatim>\<open>status\<close> is \<^verbatim>\<open>'in_progress'\<close>, and \<^verbatim>\<open>total_active_projects\<close> is their sum.
\<close>

theorem get_all_projects_consistent:
  assumes "run sf cs empty_heap = Some (xs, h)" and "c < length (companies h)"
  shows "case get_all_projects c h of
           None \<Rightarrow> False
         | Some s \<Rightarrow>
             total_housing_projects s = int (length (housing_projects (companies h ! c)))
             \<and> total_road_projects s = int (length (road_projects (companies h ! c)))
             \<and> total_design_plans s = int (length (design_plans (companies h ! c)))
             \<and> active_housing_projects s =
                 int (card {p \<in> set (housing_projects (companies h ! c)).
                             h_status (housings h ! p) = ''in_progress''})
             \<and> active_road_projects s =
                 int (card {p \<in> set (road_projects (companies h ! c)).
                             r_status (roads h ! p) = ''in_progress''})
             \<and> total_active_projects s = active_housing_projects s + active_road_projects s"
proof -
  from run_registry_ok [OF assms(1)] assms(2) have "company_ok h (companies h ! c)"
    by (simp add: registry_ok_nth)
  from get_all_projects_counts [OF assms(2) this] show ?thesis
    by simp
qed

theorem get_all_projects_consistent_witness:
  "run str_float0 main_calls empty_heap = Some (main_results, main_heap)
   \<and> 0 < length (companies main_heap)
   \<and> get_all_projects 0 main_heap =
       Some \<lparr>s_company_name = ''Premier Construction Ltd.'', total_housing_projects = 1,
             total_road_projects = 1, total_design_plans = 2, active_housing_projects = 1,
             active_road_projects = 1, total_active_projects = 2\<rparr>"
proof -
  have c: "0 < length (companies main_heap)"
    by (simp add: main_heap_def)
  have g: "get_all_projects 0 main_heap =
       Some \<lparr>s_company_name = ''Premier Construction Ltd.'', total_housing_projects = 1,
             total_road_projects = 1, total_design_plans = 2, active_housing_projects = 1,
             active_road_projects = 1, total_active_projects = 2\<rparr>"
    by (simp add: main_heap_def get_all_projects_def lookup_def in_progress_count_def)
  from get_all_projects_consistent [OF main_run c] main_run c g show ?thesis
    by simp
qed

subsection \<open>The two fields that no method uses\<close>

lemma with_counters_simps [simp]:
  "plans (with_counters c tw ap h) = plans h"
  "housings (with_counters c tw ap h) = housings h"
  "roads (with_counters c tw ap h) = roads h"
  "length (companies (with_counters c tw ap h)) = length (companies h)"
  by (simp_all add: with_counters_def)

lemma with_counters_fields:
  assumes "i < length (companies h)"
  shows "company_name (companies (with_counters c tw ap h) ! i) = company_name (companies h ! i)"
    and "housing_projects (companies (with_counters c tw ap h) ! i) = housing_projects (companies h ! i)"
    and "road_projects (companies (with_counters c tw ap h) ! i) = road_projects (companies h ! i)"
    and "design_plans (companies (with_counters c tw ap h) ! i) = design_plans (companies h ! i)"
  using assms by (cases "i = c"; simp add: with_counters_def)+

lemma read_housing_info: "HousingProject_get_project_info r (with_counters c tw ap h) = HousingProject_get_project_info r h"
  by (simp add: HousingProject_get_project_info_def)

lemma read_road_info: "RoadProject_get_project_info r (with_counters c tw ap h) = RoadProject_get_project_info r h"
  by (simp add: RoadProject_get_project_info_def)

lemma read_details: "get_details r (with_counters c tw ap h) = get_details r h"
  by (simp add: get_details_def)

lemma collect_read:
  "collect HousingProject_get_project_info rs (with_counters c tw ap h)
     = collect HousingProject_get_project_info rs h"
  "collect RoadProject_get_project_info rs (with_counters c tw ap h)
     = collect RoadProject_get_project_info rs h"
  "collect get_details rs (with_counters c tw ap h) = collect get_details rs h"
  by (induction rs)
     (simp_all add: read_housing_info read_road_info read_details split: option.split)

lemma read_summary: "get_all_projects i (with_counters c tw ap h) = get_all_projects i h"
  by (simp add: get_all_projects_def lookup_def with_counters_fields Let_def
      split: option.split)

lemma read_lists:
  "list_housing_projects i (with_counters c tw ap h) = list_housing_projects i h"
  "list_road_projects i (with_counters c tw ap h) = list_road_projects i h"
  "list_design_plans i (with_counters c tw ap h) = list_design_plans i h"
  by (simp_all add: list_housing_projects_def list_road_projects_def list_design_plans_def
      lookup_def with_counters_fields collect_read)

lemma read_report:
  "generate_report sf now i (with_counters c tw ap h) = generate_report sf now i h"
  by (simp add: generate_report_def lookup_def with_counters_fields read_summary
      collect_read split: option.split)


lemma with_counters_append:
  "c < length (companies h) \<Longrightarrow>
   with_counters c tw ap (h\<lparr>companies := companies h @ [x]\<rparr>)
     = (with_counters c tw ap h)\<lparr>companies := companies (with_counters c tw ap h) @ [x]\<rparr>"
  by (simp add: with_counters_def list_update_append nth_append)

lemma counters_last:
  "C\<lparr>total_workers := tw, active_projects := ap, design_plans := d\<rparr>
     = C\<lparr>design_plans := d, total_workers := tw, active_projects := ap\<rparr>"
  "C\<lparr>total_workers := tw, active_projects := ap, housing_projects := d\<rparr>
     = C\<lparr>housing_projects := d, total_workers := tw, active_projects := ap\<rparr>"
  "C\<lparr>total_workers := tw, active_projects := ap, road_projects := d\<rparr>
     = C\<lparr>road_projects := d, total_workers := tw, active_projects := ap\<rparr>"
  by (cases C; simp)+

lemma exec_ignores_counters:
  assumes "c < length (companies h)"
  shows "exec sf now call (with_counters c tw ap h)
           = map_option (\<lambda>(x, h'). (x, with_counters c tw ap h')) (exec sf now call h)"
proof (cases call)
  case (New_ConstructionCompany cname)
  with assms show ?thesis
    by (simp add: wrap_defs ConstructionCompany_init_def with_counters_append)
next
  case (Create_design_plan i pid ptype descr area cost)
  with assms show ?thesis
    by (cases "i = c")
       (simp_all add: wrap_defs create_design_plan_def DesignPlan_init_def with_counters_def
          Let_def list_update_swap counters_last)
next
  case (Create_housing_project i pid pname htype units)
  with assms show ?thesis
    by (cases "i = c")
       (simp_all add: wrap_defs create_housing_project_def HousingProject_init_def
          with_counters_def Let_def list_update_swap counters_last)
next
  case (Create_road_project i pid rname rtype len)
  with assms show ?thesis
    by (cases "i = c")
       (simp_all add: wrap_defs create_road_project_def RoadProject_init_def
          with_counters_def Let_def list_update_swap counters_last)
qed (simp_all add: wrap_defs read_summary read_lists read_report read_housing_info
       read_road_info read_details,
     simp_all add: method_defs with_counters_def Let_def option.map_comp comp_def
       split: option.split sum.split)

lemma exec_counters:
  assumes "exec sf now c h = Some (x, h')" and "i < length (companies h')"
  shows "if i < length (companies h)
         then total_workers (companies h' ! i) = total_workers (companies h ! i)
              \<and> active_projects (companies h' ! i) = active_projects (companies h ! i)
         else total_workers (companies h' ! i) = 0 \<and> active_projects (companies h' ! i) = 0"
  using exec_company [OF assms]
  by (elim disjE conjE exE) simp_all

lemma run_counters_zero:
  assumes "run sf cs empty_heap = Some (xs, h)" and "c < length (companies h)"
  shows "total_workers (companies h ! c) = 0 \<and> active_projects (companies h ! c) = 0"
proof -
  let ?I = "\<lambda>k. \<forall>i < length (companies k).
                total_workers (companies k ! i) = 0 \<and> active_projects (companies k ! i) = 0"
  have "?I h"
  proof (rule run_invariant [where I = ?I, OF _ assms(1)])
    show "?I empty_heap"
      by (simp add: empty_heap_def)
  next
    fix t cl k x k'
    assume e: "exec sf t cl k = Some (x, k')" and k: "?I k"
    show "?I k'"
    proof (intro allI impI)
      fix i
      assume "i < length (companies k')"
      from exec_counters [OF e this] k
      show "total_workers (companies k' ! i) = 0 \<and> active_projects (companies k' ! i) = 0"
        by (cases "i < length (companies k)") simp_all
    qed
  qed
  with assms(2) show ?thesis
    by simp
qed

text \<open>
  C10. \<^verbatim>\<open>total_workers\<close> and \<^verbatim>\<open>active_projects\<close> of a company: the constructor sets both
  to \<open>0\<close>; both are \<open>0\<close> in every store in which a run from the empty store ends; every
  call of every class returns the same result whatever values the two fields hold, and
  leaves those values in place (so no call reads them and none writes them); and the active
  counts of \<^verbatim>\<open>get_all_projects\<close> are the numbers of projects in progress, whatever the two
  fields hold.
\<close>

theorem counters_unused:
  "(case ConstructionCompany_init cname h0 of
      (c0, h') \<Rightarrow> total_workers (companies h' ! c0) = 0 \<and> active_projects (companies h' ! c0) = 0)
   \<and> (run sf cs empty_heap = Some (xs, h) \<and> c < length (companies h) \<longrightarrow>
        total_workers (companies h ! c) = 0 \<and> active_projects (companies h ! c) = 0)
   \<and> (i < length (companies k) \<longrightarrow>
        exec sf now call (with_counters i tw ap k)
          = map_option (\<lambda>(x, k'). (x, with_counters i tw ap k')) (exec sf now call k))
   \<and> (i < length (companies k) \<and> company_ok k (companies k ! i) \<longrightarrow>
        (case get_all_projects i (with_counters i tw ap k) of
           None \<Rightarrow> False
         | Some s \<Rightarrow>
             active_housing_projects s =
               int (card {p \<in> set (housing_projects (companies k ! i)).
                           h_status (housings k ! p) = ''in_progress''})
             \<and> active_road_projects s =
               int (card {p \<in> set (road_projects (companies k ! i)).
                           r_status (roads k ! p) = ''in_progress''})
             \<and> total_active_projects s = active_housing_projects s + active_road_projects s))"
proof (intro conjI impI)
  show "case ConstructionCompany_init cname h0 of
          (c0, h') \<Rightarrow> total_workers (companies h' ! c0) = 0 \<and> active_projects (companies h' ! c0) = 0"
    by (simp add: ConstructionCompany_init_def)
next
  assume "run sf cs empty_heap = Some (xs, h) \<and> c < length (companies h)"
  then show "total_workers (companies h ! c) = 0" "active_projects (companies h ! c) = 0"
    using run_counters_zero [of sf cs xs h c] by simp_all
next
  assume "i < length (companies k)"
  then show "exec sf now call (with_counters i tw ap k)
          = map_option (\<lambda>(x, k'). (x, with_counters i tw ap k')) (exec sf now call k)"
    by (rule exec_ignores_counters)
next
  assume a: "i < length (companies k) \<and> company_ok k (companies k ! i)"
  then have "get_all_projects i k = Some
      \<lparr>s_company_name = company_name (companies k ! i),
       total_housing_projects = int (length (housing_projects (companies k ! i))),
       total_road_projects = int (length (road_projects (companies k ! i))),
       total_design_plans = int (length (design_plans (companies k ! i))),
       active_housing_projects =
         int (card {p \<in> set (housing_projects (companies k ! i)).
                     h_status (housings k ! p) = ''in_progress''}),
       active_road_projects =
         int (card {p \<in> set (road_projects (companies k ! i)).
                     r_status (roads k ! p) = ''in_progress''}),
       total_active_projects =
         int (card {p \<in> set (housing_projects (companies k ! i)).
                     h_status (housings k ! p) = ''in_progress''})
         + int (card {p \<in> set (road_projects (companies k ! i)).
                     r_status (roads k ! p) = ''in_progress''})\<rparr>"
    using get_all_projects_counts [of i k] by simp
  then show "case get_all_projects i (with_counters i tw ap k) of
           None \<Rightarrow> False
         | Some s \<Rightarrow>
             active_housing_projects s =
               int (card {p \<in> set (housing_projects (companies k ! i)).
                           h_status (housings k ! p) = ''in_progress''})
             \<and> active_road_projects s =
               int (card {p \<in> set (road_projects (companies k ! i)).
                           r_status (roads k ! p) = ''in_progress''})
             \<and> total_active_projects s = active_housing_projects s + active_road_projects s"
    by (simp add: read_summary)
qed

theorem counters_unused_witness:
  "run str_float0 main_calls empty_heap = Some (main_results, main_heap)
   \<and> 0 < length (companies main_heap)
   \<and> company_ok main_heap (companies main_heap ! 0)
   \<and> total_workers (companies main_heap ! 0) = 0
   \<and> active_projects (companies main_heap ! 0) = 0
   \<and> active_projects (companies (with_counters 0 7 9 main_heap) ! 0) = 9
   \<and> exec str_float0 t0 (Get_all_projects 0) (with_counters 0 7 9 main_heap) =
       Some (Summary
              \<lparr>s_company_name = ''Premier Construction Ltd.'', total_housing_projects = 1,
               total_road_projects = 1, total_design_plans = 2, active_housing_projects = 1,
               active_road_projects = 1, total_active_projects = 2\<rparr>,
             with_counters 0 7 9 main_heap)"
proof -
  have c: "0 < length (companies main_heap)"
    by (simp add: main_heap_def)
  have ok: "company_ok main_heap (companies main_heap ! 0)"
    by (simp add: main_heap_def company_ok_def)
  have w: "active_projects (companies (with_counters 0 7 9 main_heap) ! 0) = 9"
    by (simp add: main_heap_def with_counters_def)
  have g: "exec str_float0 t0 (Get_all_projects 0) main_heap =
       Some (Summary
              \<lparr>s_company_name = ''Premier Construction Ltd.'', total_housing_projects = 1,
               total_road_projects = 1, total_design_plans = 2, active_housing_projects = 1,
               active_road_projects = 1, total_active_projects = 2\<rparr>,
             main_heap)"
    by (simp add: main_heap_def get_all_projects_def lookup_def in_progress_count_def
        wrap_defs)
  from counters_unused
    [of "''Premier Construction Ltd.''" empty_heap str_float0 main_calls main_results main_heap
        0 0 main_heap t0 "Get_all_projects 0" 7 9]
    main_run c ok
  have "total_workers (companies main_heap ! 0) = 0"
    "active_projects (companies main_heap ! 0) = 0"
    "exec str_float0 t0 (Get_all_projects 0) (with_counters 0 7 9 main_heap)
       = map_option (\<lambda>(x, k'). (x, with_counters 0 7 9 k'))
           (exec str_float0 t0 (Get_all_projects 0) main_heap)"
    by simp_all
  with main_run c ok w g show ?thesis
    by simp
qed

subsection \<open>Creation and listing of design plans\<close>

lemma exec_design_plans:
  assumes "exec sf now c h = Some (x, h')" and "i < length (companies h')"
  shows "design_plans (companies h' ! i) =
           (if i < length (companies h) then design_plans (companies h ! i) else [])
           @ (case plan_created_by i ((now, c), x) of None \<Rightarrow> [] | Some p \<Rightarrow> [p])"
  using assms
  by (cases c; clarsimp simp: method_defs wrap_defs Let_def nth_append nth_list_update
           plan_created_by_def split: if_splits option.splits sum.splits)

lemma exec_created_valid:
  assumes "exec sf now c h = Some (x, h')" and "plan_created_by i ((now, c), x) = Some p"
  shows "i < length (companies h)"
  using assms
  by (cases c; clarsimp simp: method_defs wrap_defs Let_def plan_created_by_def
           split: if_splits option.splits sum.splits)

lemma created_plans_Cons:
  "created_plans i (a # cs) (x # xs) =
     (case plan_created_by i (a, x) of None \<Rightarrow> [] | Some p \<Rightarrow> [p]) @ created_plans i cs xs"
  by (simp add: created_plans_def split: option.split)

lemma run_created:
  assumes "run sf cs h = Some (xs, h')" and "i < length (companies h')"
  shows "design_plans (companies h' ! i) =
           (if i < length (companies h) then design_plans (companies h ! i) else [])
           @ created_plans i cs xs"
  using assms
proof (induction cs arbitrary: h xs)
  case Nil
  then show ?case
    by (simp add: created_plans_def)
next
  case (Cons a cs)
  obtain now c where a: "a = (now, c)" by (cases a)
  from Cons.prems(1) a obtain x h1 ys where
    e: "exec sf now c h = Some (x, h1)" and rest: "run sf cs h1 = Some (ys, h')"
    and xs: "xs = x # ys"
    by (auto split: option.splits)
  note IH = Cons.IH [OF rest Cons.prems(2)]
  from exec_lengths [OF e] have le: "length (companies h) \<le> length (companies h1)"
    by simp
  show ?case
  proof (cases "i < length (companies h1)")
    case True
    from exec_design_plans [OF e True] IH True show ?thesis
      by (simp add: a xs created_plans_Cons)
  next
    case False
    with le have new: "\<not> i < length (companies h)"
      by simp
    have "plan_created_by i ((now, c), x) = None"
    proof (cases "plan_created_by i ((now, c), x)")
      case None
      then show ?thesis .
    next
      case (Some p)
      from exec_created_valid [OF e Some] new show ?thesis
        by simp
    qed
    with IH False new show ?thesis
      by (simp add: a xs created_plans_Cons)
  qed
qed

lemma collect_get_details:
  assumes "\<forall>r \<in> set rs. r < length (plans h)"
  shows "\<exists>ds. collect get_details rs h = Some ds
              \<and> map Some ds = map (\<lambda>p. get_details p h) rs
              \<and> map pd_approved ds = map (\<lambda>p. approved (plans h ! p)) rs
              \<and> map pd_plan_id ds = map (\<lambda>p. plan_id (plans h ! p)) rs"
  using assms
proof (induction rs)
  case Nil
  then show ?case by simp
next
  case (Cons r rs)
  then obtain ds where ds: "collect get_details rs h = Some ds"
      "map Some ds = map (\<lambda>p. get_details p h) rs"
      "map pd_approved ds = map (\<lambda>p. approved (plans h ! p)) rs"
      "map pd_plan_id ds = map (\<lambda>p. plan_id (plans h ! p)) rs"
    by auto
  from Cons.prems obtain d where d: "get_details r h = Some d"
      "pd_approved d = approved (plans h ! r)" "pd_plan_id d = plan_id (plans h ! r)"
    by (simp add: get_details_def Let_def)
  from ds d show ?case
    by simp
qed

text \<open>
  C8. In every store in which a run from the empty store ends, the \<^verbatim>\<open>design_plans\<close> of a
  company are the plans that the run has created through its \<^verbatim>\<open>create_design_plan\<close>, in
  the order of creation and each once; \<^verbatim>\<open>list_design_plans\<close> returns, in that order, the
  \<^verbatim>\<open>get_details\<close> of each of them in the store of the call, so that the \<^verbatim>\<open>approved\<close> of a
  snapshot is the \<^verbatim>\<open>approved\<close> of the plan at that time.
\<close>

theorem list_design_plans_round_trip:
  assumes "run sf cs empty_heap = Some (xs, h)" and "c < length (companies h)"
  shows "design_plans (companies h ! c) = created_plans c cs xs
         \<and> distinct (created_plans c cs xs)
         \<and> (case list_design_plans c h of
               None \<Rightarrow> False
             | Some ds \<Rightarrow>
                 map Some ds = map (\<lambda>p. get_details p h) (created_plans c cs xs)
                 \<and> map pd_approved ds
                     = map (\<lambda>p. approved (plans h ! p)) (created_plans c cs xs)
                 \<and> map pd_plan_id ds
                     = map (\<lambda>p. plan_id (plans h ! p)) (created_plans c cs xs))"
proof -
  from run_created [OF assms] have dp: "design_plans (companies h ! c) = created_plans c cs xs"
    by (simp add: empty_heap_def)
  from run_registry_ok [OF assms(1)] assms(2) have ok: "company_ok h (companies h ! c)"
    by (simp add: registry_ok_nth)
  then have "\<forall>r \<in> set (created_plans c cs xs). r < length (plans h)"
    and d: "distinct (created_plans c cs xs)"
    by (simp_all add: company_ok_def dp)
  from collect_get_details [OF this(1)] obtain ds where
    "collect get_details (created_plans c cs xs) h = Some ds"
    "map Some ds = map (\<lambda>p. get_details p h) (created_plans c cs xs)"
    "map pd_approved ds = map (\<lambda>p. approved (plans h ! p)) (created_plans c cs xs)"
    "map pd_plan_id ds = map (\<lambda>p. plan_id (plans h ! p)) (created_plans c cs xs)"
    by blast
  with assms(2) dp d show ?thesis
    by (simp add: list_design_plans_def lookup_def)
qed

theorem list_design_plans_round_trip_witness:
  "run str_float0 main_calls empty_heap = Some (main_results, main_heap)
   \<and> 0 < length (companies main_heap)
   \<and> created_plans 0 main_calls main_results = [0, 1]
   \<and> design_plans (companies main_heap ! 0) = [0, 1]
   \<and> (case list_design_plans 0 main_heap of
         None \<Rightarrow> False
       | Some ds \<Rightarrow>
           map pd_plan_id ds = [''DP001'', ''DP002''] \<and> map pd_approved ds = [True, True])"
proof -
  have c: "0 < length (companies main_heap)"
    by (simp add: main_heap_def)
  have cr: "created_plans 0 main_calls main_results = [0, 1]"
    by (simp add: created_plans_def main_calls_def main_results_def plan_created_by_def)
  have p: "map (\<lambda>p. plan_id (plans main_heap ! p)) [0, 1] = [''DP001'', ''DP002'']"
    "map (\<lambda>p. approved (plans main_heap ! p)) [0, 1] = [True, True]"
    by (simp_all add: main_heap_def)
  from list_design_plans_round_trip [OF main_run c] main_run c cr p show ?thesis
    by (auto split: option.splits)
qed

end
